theory Spec2Isabelle
  imports Complex_Main
begin

section \<open>Arrays, errors and the random number generator\<close>

text \<open>
  A two-dimensional array is the list of its rows, a one-dimensional array a list. Entries
  are real numbers: rounding, infinities and NaN of the 64-bit floats are not modelled
  (a division by zero, which numpy answers with inf or nan and a warning, is the 0 of HOL).
  An array with no rows does not record its number of columns, so the shape statements
  below are about arrays with at least one row and one column.
\<close>

type_synonym vec = "real list"
type_synonym mat = "real list list"

datatype error = ValueError | TypeError | AttributeError | NotFittedError | LinAlgError

text \<open>
  The global generator of \<^verbatim>\<open>numpy.random\<close> is a library, taken as a parameter: the state that
  \<^verbatim>\<open>seed(k)\<close> installs and the three scalar draws the arrays are filled from, in row-major
  order.
\<close>

record 'g np_random =
  seed_state :: "int \<Rightarrow> 'g"
  next_normal :: "'g \<Rightarrow> real \<times> 'g"
  next_double :: "'g \<Rightarrow> real \<times> 'g"
  next_below :: "nat \<Rightarrow> 'g \<Rightarrow> nat \<times> 'g"

text \<open>
  The part of the process state the program reads and writes: the state of the global
  generator, and the states the operating system's entropy would install at the coming
  calls of \<^verbatim>\<open>seed(None)\<close>.
\<close>

record 'g world =
  rng :: 'g
  entropy :: "nat \<Rightarrow> 'g"

definition bind_res ::
  "(error + 'a) \<times> 's \<Rightarrow> ('a \<Rightarrow> 's \<Rightarrow> (error + 'b) \<times> 's) \<Rightarrow> (error + 'b) \<times> 's" where
  "bind_res r f = (case r of (Inl e, s) \<Rightarrow> (Inl e, s) | (Inr x, s) \<Rightarrow> f x s)"

definition ncols :: "'a list list \<Rightarrow> nat" where
  "ncols A = (case A of [] \<Rightarrow> 0 | r # _ \<Rightarrow> length r)"

definition has_shape :: "'a list list \<Rightarrow> nat \<Rightarrow> nat \<Rightarrow> bool" where
  "has_shape A m n = (length A = m \<and> list_all (\<lambda>r. length r = n) A)"

text \<open>\<^verbatim>\<open>A.T\<close> of a two-dimensional array.\<close>

definition transpose_mat :: "'a list list \<Rightarrow> 'a list list" where
  "transpose_mat A = map (\<lambda>j. map (\<lambda>r. r ! j) A) [0..<ncols A]"

text \<open>\<^verbatim>\<open>np.eye(N, N)\<close>.\<close>

definition eye :: "nat \<Rightarrow> mat" where
  "eye N = map (\<lambda>i. map (\<lambda>j. if i = j then 1 else 0) [0..<N]) [0..<N]"

text \<open>\<^verbatim>\<open>np.random.seed(s)\<close>: an integer seed must lie in \<open>[0, 2^32)\<close>.\<close>

definition np_random_seed ::
  "'g np_random \<Rightarrow> int option \<Rightarrow> 'g world \<Rightarrow> (error + unit) \<times> 'g world" where
  "np_random_seed lib s w =
     (case s of
        None \<Rightarrow> (Inr (), w\<lparr>rng := entropy w 0, entropy := (\<lambda>i. entropy w (Suc i))\<rparr>)
      | Some k \<Rightarrow>
          if 0 \<le> k \<and> k < 2 ^ 32 then (Inr (), w\<lparr>rng := seed_state lib k\<rparr>)
          else (Inl ValueError, w))"

text \<open>\<open>n\<close> draws in a row, and \<open>m\<close> rows of \<open>n\<close> draws.\<close>

fun draws :: "('g \<Rightarrow> 'a \<times> 'g) \<Rightarrow> nat \<Rightarrow> 'g \<Rightarrow> 'a list \<times> 'g" where
  "draws f 0 g = ([], g)"
| "draws f (Suc n) g =
     (case f g of (x, g') \<Rightarrow> (case draws f n g' of (xs, g'') \<Rightarrow> (x # xs, g'')))"

fun draws_mat :: "('g \<Rightarrow> 'a \<times> 'g) \<Rightarrow> nat \<Rightarrow> nat \<Rightarrow> 'g \<Rightarrow> 'a list list \<times> 'g" where
  "draws_mat f 0 n g = ([], g)"
| "draws_mat f (Suc m) n g =
     (case draws f n g of (r, g') \<Rightarrow> (case draws_mat f m n g' of (rs, g'') \<Rightarrow> (r # rs, g'')))"

text \<open>\<^verbatim>\<open>np.random.randn(M, N)\<close>.\<close>

definition randn :: "'g np_random \<Rightarrow> nat \<Rightarrow> nat \<Rightarrow> 'g world \<Rightarrow> mat \<times> 'g world" where
  "randn lib M N w = (case draws_mat (next_normal lib) M N (rng w) of (A, g) \<Rightarrow> (A, w\<lparr>rng := g\<rparr>))"

text \<open>\<^verbatim>\<open>np.random.uniform(low, high, (M, 1))\<close>, as the list of its \<open>M\<close> entries.\<close>

definition uniform :: "'g np_random \<Rightarrow> real \<Rightarrow> real \<Rightarrow> nat \<Rightarrow> 'g world \<Rightarrow> vec \<times> 'g world" where
  "uniform lib low high M w =
     (case draws (next_double lib) M (rng w) of
        (us, g) \<Rightarrow> (map (\<lambda>u. low + (high - low) * u) us, w\<lparr>rng := g\<rparr>))"

text \<open>
  \<^verbatim>\<open>np.random.randint(low, high, size)\<close> with \<open>n\<close> entries, the integers of \<open>[low, high)\<close>;
  an empty range is a \<^verbatim>\<open>ValueError\<close>.
\<close>

definition randint ::
  "'g np_random \<Rightarrow> nat \<Rightarrow> nat \<Rightarrow> nat \<Rightarrow> 'g world \<Rightarrow> (error + nat list) \<times> 'g world" where
  "randint lib low high n w =
     (if high \<le> low then (Inl ValueError, w)
      else (case draws (next_below lib (high - low)) n (rng w) of
              (ks, g) \<Rightarrow> (Inr (map (\<lambda>k. low + k) ks), w\<lparr>rng := g\<rparr>)))"

section \<open>The first module: \<^verbatim>\<open>estimator.py\<close>\<close>

subsection \<open>Nonlinearities\<close>

definition relu :: "real \<Rightarrow> mat \<Rightarrow> mat" where
  "relu thrsh x = map (map (\<lambda>v. max v thrsh)) x"

definition sigmoid :: "mat \<Rightarrow> mat" where
  "sigmoid x = map (map (\<lambda>v. 1 / (1 + exp (- v)))) x"

subsection \<open>\<^verbatim>\<open>random_feature_matrix\<close>\<close>

text \<open>\<^verbatim>\<open>gaussian(X, mu, sigma)\<close> with \<open>X\<close> a one-dimensional array and \<open>mu\<close>, \<open>sigma\<close> scalars.\<close>

definition gaussian :: "vec \<Rightarrow> real \<Rightarrow> real \<Rightarrow> vec" where
  "gaussian X mu sigma = map (\<lambda>x. exp (- (\<bar>mu - x\<bar> ^ 2) / (2 * sigma ^ 2))) X"

text \<open>
  The argument \<^verbatim>\<open>weights\<close>: a string, \<^verbatim>\<open>None\<close>, or a function of \<open>(M, N)\<close>, which may draw
  from the global generator.
\<close>

datatype 'g weights_arg =
    WStr string
  | WNone
  | WFun "nat \<Rightarrow> nat \<Rightarrow> 'g world \<Rightarrow> (error + mat) \<times> 'g world"

text \<open>The branch \<^verbatim>\<open>weights == 'unimodal'\<close> of \<^verbatim>\<open>random_feature_matrix\<close>.\<close>

definition unimodal :: "'g np_random \<Rightarrow> nat \<Rightarrow> nat \<Rightarrow> 'g world \<Rightarrow> (error + mat) \<times> 'g world" where
  "unimodal lib M N w =
     (case uniform lib 0 (real N) M w of (mu, w1) \<Rightarrow>
      case uniform lib 0.1 (real N / 4) M w1 of (sigma, w2) \<Rightarrow>
      bind_res (randint lib 1 20 M w2) (\<lambda>c w3.
        (Inr (map2 (\<lambda>row k. map (\<lambda>v. v * real k) row)
                (map (\<lambda>(m, s). gaussian (map real [0..<N]) m s) (zip mu sigma)) c), w3)))"

definition random_feature_matrix ::
  "'g np_random \<Rightarrow> nat \<Rightarrow> nat \<Rightarrow> 'g weights_arg \<Rightarrow> int option \<Rightarrow> 'g world
     \<Rightarrow> (error + mat) \<times> 'g world" where
  "random_feature_matrix lib M N weights rand_seed w =
     (case (case rand_seed of
              None \<Rightarrow> (case next_below lib 1000 (rng w) of (k, g) \<Rightarrow> (int k, w\<lparr>rng := g\<rparr>))
            | Some k \<Rightarrow> (k, w)) of
        (rand_seed, w0) \<Rightarrow>
     bind_res (np_random_seed lib (Some rand_seed) w0) (\<lambda>_ w1.
     bind_res
       (if weights = WStr ''unimodal'' then unimodal lib M N w1
        else if weights = WStr ''white noise'' then
          (case randn lib M N w1 of (J, w2) \<Rightarrow> (Inr J, w2))
        else (case weights of
                WNone \<Rightarrow> (Inr (eye N), w1)
              | WFun f \<Rightarrow> f M N w1
              | WStr _ \<Rightarrow> (Inl TypeError, w1)))
       (\<lambda>J w2. (Inr (transpose_mat J), w2))))"

section \<open>The second module: \<^verbatim>\<open>new_version/estimator.py\<close>\<close>

subsection \<open>Spectral weights\<close>

text \<open>
  \<^verbatim>\<open>scipy.linalg.dft(N, scale=None)\<close>: the powers \<open>\<omega>\<^sub>j ^ k\<close> of \<open>\<omega>\<^sub>j = exp (- 2 \<pi> i j / N)\<close>.
\<close>

definition dft :: "nat \<Rightarrow> complex list list" where
  "dft N = map (\<lambda>j. map (\<lambda>k. cis (- 2 * pi * real j / real N) ^ k) [0..<N]) [0..<N]"

text \<open>
  One entry of \<^verbatim>\<open>np.random.normal(0, 1, size=(.., 2)).view(np.complex)\<close>: two draws, the real
  and the imaginary part.
\<close>

definition next_complex :: "'g np_random \<Rightarrow> 'g \<Rightarrow> complex \<times> 'g" where
  "next_complex lib g =
     (case next_normal lib g of (a, g1) \<Rightarrow>
      case next_normal lib g1 of (b, g2) \<Rightarrow> (Complex a b, g2))"

text \<open>\<^verbatim>\<open>np.dot(rand, dft).real\<close> for \<open>rand\<close> of \<open>N\<close> columns.\<close>

definition dot_dft_real :: "nat \<Rightarrow> complex list list \<Rightarrow> mat" where
  "dot_dft_real N rand =
     map (\<lambda>r. map (\<lambda>k. Re (sum_list (map (\<lambda>j. r ! j * dft N ! j ! k) [0..<N]))) [0..<N]) rand"

text \<open>\<^verbatim>\<open>np.std\<close> of a row, and \<^verbatim>\<open>W /= np.std(W, axis=1).reshape(-1, 1)\<close>.\<close>

definition mean :: "vec \<Rightarrow> real" where
  "mean xs = sum_list xs / real (length xs)"

definition np_std :: "vec \<Rightarrow> real" where
  "np_std xs = sqrt (mean (map (\<lambda>x. \<bar>x - mean xs\<bar> ^ 2) xs))"

definition normalize_rows :: "mat \<Rightarrow> mat" where
  "normalize_rows W = map (\<lambda>r. map (\<lambda>v. v / np_std r) r) W"

definition classical_weights ::
  "'g np_random \<Rightarrow> nat \<Rightarrow> nat \<Rightarrow> int option \<Rightarrow> 'g world \<Rightarrow> (error + mat) \<times> 'g world" where
  "classical_weights lib M N random_state w =
     bind_res (np_random_seed lib random_state w) (\<lambda>_ w1.
       case draws_mat (next_complex lib) M N (rng w1) of
         (rand, g) \<Rightarrow> (Inr (normalize_rows (dot_dft_real N rand)), w1\<lparr>rng := g\<rparr>))"

text \<open>
  The bounds of the Python slice \<^verbatim>\<open>lowcut:highcut\<close> on an axis of length \<open>n\<close>: a negative
  index counts from the end, and both are clipped to \<open>[0, n]\<close>.
\<close>

definition slice_bound :: "int \<Rightarrow> nat \<Rightarrow> nat" where
  "slice_bound i n =
     (if i < 0 then (if i + int n < 0 then 0 else nat (i + int n))
      else if int n < i then n else nat i)"

text \<open>
  \<^verbatim>\<open>rand[:, lowcut:highcut] = np.random.normal(..., size=(M, highcut-lowcut, 2))
      .view(np.complex).squeeze()\<close>.
  A negative size is a \<^verbatim>\<open>ValueError\<close>. \<^verbatim>\<open>squeeze()\<close> drops every axis of length 1 of the
  \<open>(M, d, 1)\<close> array, where \<open>d = highcut - lowcut\<close>; the assignment then broadcasts the value
  to the \<open>(M, len)\<close> slice or fails with a \<^verbatim>\<open>ValueError\<close>: for \<open>d \<noteq> 1\<close> the value has \<open>d\<close>
  columns and needs \<open>d = len\<close>; for \<open>d = 1\<close> it is a scalar if \<open>M = 1\<close> and else of shape
  \<open>(M,)\<close>, which fits only a slice with \<open>M\<close> columns.
\<close>

definition haltere_inspired_weights ::
  "'g np_random \<Rightarrow> nat \<Rightarrow> nat \<Rightarrow> int \<Rightarrow> int \<Rightarrow> int option \<Rightarrow> 'g world
     \<Rightarrow> (error + mat) \<times> 'g world" where
  "haltere_inspired_weights lib M N lowcut highcut random_state w =
     bind_res (np_random_seed lib random_state w) (\<lambda>_ w1.
       if highcut - lowcut < 0 then (Inl ValueError, w1)
       else
         let d = nat (highcut - lowcut);
             start = slice_bound lowcut N;
             len = slice_bound highcut N - start
         in case draws_mat (next_complex lib) M d (rng w1) of
              (vals, g) \<Rightarrow>
                if (if d = 1 then M = 1 \<or> M = len else d = len) then
                  (Inr (normalize_rows (dot_dft_real N
                     (map (\<lambda>v. replicate start 0 @ take len v @ replicate (N - start - len) 0)
                        vals))),
                   w1\<lparr>rng := g\<rparr>)
                else (Inl ValueError, w1\<lparr>rng := g\<rparr>))"

subsection \<open>Weights inspired by receptive fields\<close>

text \<open>
  \<^verbatim>\<open>np.arange(np.sqrt(N))\<close> holds the integers below \<open>sqrt N\<close>, so it has \<open>\<lceil>sqrt N\<rceil>\<close>
  entries. \<^verbatim>\<open>meshgrid\<close>, \<^verbatim>\<open>flatten\<close> and \<^verbatim>\<open>column_stack\<close> list the points \<open>(x i, x j)\<close> of the
  grid row by row. \<^verbatim>\<open>K += 1e-5 * np.eye(N)\<close> is an in-place addition: the \<open>N \<times> N\<close> operand
  must fit the shape of \<open>K\<close>, else it is a \<^verbatim>\<open>ValueError\<close>.
\<close>

definition V1_inspired_kernel_matrix ::
  "nat \<Rightarrow> real \<Rightarrow> real \<Rightarrow> real \<times> real \<Rightarrow> error + mat" where
  "V1_inspired_kernel_matrix N t l m =
     (let x = map real [0..<nat \<lceil>sqrt (real N)\<rceil>];
          grid = concat (map (\<lambda>xi. map (\<lambda>xj. (xi, xj)) x) x);
          a = map (\<lambda>p. map (\<lambda>q. (fst p - fst q) ^ 2 + (snd p - snd q) ^ 2) grid) grid;
          b = map (\<lambda>p. (sqrt ((fst p - fst m) ^ 2 + (snd p - snd m) ^ 2)) ^ 2) grid;
          K = map2 (\<lambda>arow cp.
                map2 (\<lambda>apq bq. 10 * exp (- apq / (2 * l ^ 2)) * exp (- bq / (2 * t ^ 2))
                                  * exp (- cp / (2 * t ^ 2))) arow b) a b
      in if length grid = N then Inr (map2 (map2 (\<lambda>k e. k + 1 / 100000 * e)) K (eye N))
         else Inl ValueError)"

text \<open>
  \<^verbatim>\<open>numpy.linalg.cholesky\<close>: the lower triangular factor, computed row by row from the lower
  triangle; a pivot that is not positive is a \<^verbatim>\<open>LinAlgError\<close>. The rows built so far are
  kept up to their diagonal entry and filled with zeros at the end.
\<close>

definition dotp :: "vec \<Rightarrow> vec \<Rightarrow> real" where
  "dotp u v = sum_list (map2 (*) u v)"

fun chol_offdiag :: "vec list \<Rightarrow> vec \<Rightarrow> vec \<Rightarrow> vec" where
  "chol_offdiag (Lj # Ls) (kij # ks) acc =
     chol_offdiag Ls ks (acc @ [(kij - dotp acc Lj) / last Lj])"
| "chol_offdiag _ _ acc = acc"

fun chol_rows :: "mat \<Rightarrow> vec list \<Rightarrow> vec list option" where
  "chol_rows [] Ls = Some Ls"
| "chol_rows (Ki # Ks) Ls =
     (let acc = chol_offdiag Ls Ki [];
          d = Ki ! length Ls - dotp acc acc
      in if d \<le> 0 then None else chol_rows Ks (Ls @ [acc @ [sqrt d]]))"

definition cholesky :: "mat \<Rightarrow> error + mat" where
  "cholesky K =
     (if \<not> list_all (\<lambda>r. length r = length K) K then Inl LinAlgError
      else case chol_rows K [] of
             None \<Rightarrow> Inl LinAlgError
           | Some Ls \<Rightarrow> Inr (map (\<lambda>r. r @ replicate (length K - length r) 0) Ls))"

definition V1_inspired_weights_for_center ::
  "'g np_random \<Rightarrow> nat \<Rightarrow> real \<Rightarrow> real \<Rightarrow> real \<times> real \<Rightarrow> int option \<Rightarrow> 'g world
     \<Rightarrow> (error + vec) \<times> 'g world" where
  "V1_inspired_weights_for_center lib N t l m random_state w =
     bind_res (np_random_seed lib random_state w) (\<lambda>_ w1.
       case V1_inspired_kernel_matrix N t l m of
         Inl e \<Rightarrow> (Inl e, w1)
       | Inr K \<Rightarrow>
           (case cholesky K of
              Inl e \<Rightarrow> (Inl e, w1)
            | Inr L \<Rightarrow>
                (case draws (next_normal lib) N (rng w1) of
                   (z, g) \<Rightarrow>
                     if ncols L = N then (Inr (map (\<lambda>r. dotp r z) L), w1\<lparr>rng := g\<rparr>)
                     else (Inl ValueError, w1\<lparr>rng := g\<rparr>))))"

text \<open>One row of \<^verbatim>\<open>np.random.randint(high, size=(M, 2))\<close>.\<close>

definition next_center :: "'g np_random \<Rightarrow> nat \<Rightarrow> 'g \<Rightarrow> (nat \<times> nat) \<times> 'g" where
  "next_center lib high g =
     (case next_below lib high g of (a, g1) \<Rightarrow>
      case next_below lib high g1 of (b, g2) \<Rightarrow> ((a, b), g2))"

text \<open>
  The loop over the centers; \<^verbatim>\<open>np.row_stack((W, w.T))\<close> appends a row of \<open>N\<close> entries and is
  a \<^verbatim>\<open>ValueError\<close> on any other length.
\<close>

fun V1_rows ::
  "'g np_random \<Rightarrow> nat \<Rightarrow> real \<Rightarrow> real \<Rightarrow> int option \<Rightarrow> (nat \<times> nat) list \<Rightarrow> mat \<Rightarrow> 'g world
     \<Rightarrow> (error + mat) \<times> 'g world" where
  "V1_rows lib N t l random_state [] W w = (Inr W, w)"
| "V1_rows lib N t l random_state (m # ms) W w =
     bind_res
       (V1_inspired_weights_for_center lib N t l (real (fst m), real (snd m)) random_state w)
       (\<lambda>wv w'. if length wv = N then V1_rows lib N t l random_state ms (W @ [wv]) w'
                else (Inl ValueError, w'))"

definition V1_centers ::
  "'g np_random \<Rightarrow> nat \<Rightarrow> nat \<Rightarrow> int option \<Rightarrow> 'g world
     \<Rightarrow> (error + (nat \<times> nat) list) \<times> 'g world" where
  "V1_centers lib M N random_state w =
     bind_res (np_random_seed lib random_state w) (\<lambda>_ w1.
       let high = nat \<lfloor>sqrt (real N)\<rfloor>
       in if high \<le> 0 then (Inl ValueError, w1)
          else case draws (next_center lib high) M (rng w1) of
                 (centers, g) \<Rightarrow> (Inr centers, w1\<lparr>rng := g\<rparr>))"

definition V1_inspired_weights ::
  "'g np_random \<Rightarrow> nat \<Rightarrow> nat \<Rightarrow> real \<Rightarrow> real \<Rightarrow> int option \<Rightarrow> 'g world
     \<Rightarrow> (error + mat) \<times> 'g world" where
  "V1_inspired_weights lib M N t l random_state w =
     bind_res (V1_centers lib M N random_state w) (\<lambda>centers w1.
       V1_rows lib N t l random_state centers [] w1)"

subsection \<open>Matrix product, bias and the injected classifier\<close>

text \<open>
  \<^verbatim>\<open>X @ B\<close> and \<^verbatim>\<open>np.dot(X, B)\<close> of two-dimensional arrays: the number of columns of \<open>X\<close> must
  be the number of rows of \<open>B\<close>, else it is a \<^verbatim>\<open>ValueError\<close>.
\<close>

definition matmul :: "mat \<Rightarrow> mat \<Rightarrow> error + mat" where
  "matmul X B =
     (if ncols X = length B
      then Inr (map (\<lambda>r. map (\<lambda>j. sum_list (map2 (\<lambda>a brow. a * brow ! j) r B)) [0..<ncols B]) X)
      else Inl ValueError)"

text \<open>
  The bias is a scalar or a one-dimensional array; adding it to a two-dimensional array
  follows numpy's broadcasting, which fails with a \<^verbatim>\<open>ValueError\<close>.
\<close>

datatype bias = BScalar real | BVec vec

definition add_bias :: "mat \<Rightarrow> bias \<Rightarrow> error + mat" where
  "add_bias P b =
     (case b of
        BScalar c \<Rightarrow> Inr (map (map (\<lambda>h. h + c)) P)
      | BVec v \<Rightarrow>
          if length v = ncols P then Inr (map (\<lambda>r. map2 (+) r v) P)
          else if length v = 1 then Inr (map (map (\<lambda>h. h + hd v)) P)
          else if ncols P = 1 then Inr (map (\<lambda>r. map (\<lambda>c. hd r + c) v) P)
          else Inl ValueError)"

text \<open>
  The linear classifier is a collaborator, known by its contract alone: \<^verbatim>\<open>fit\<close>,
  \<^verbatim>\<open>predict\<close>, \<^verbatim>\<open>score\<close>, the attributes \<^verbatim>\<open>coef_\<close> and \<^verbatim>\<open>intercept_\<close> (absent before a
  fit), and the constructor \<^verbatim>\<open>LinearSVC(random_state=seed, tol=1e-4, max_iter=1000)\<close> that the
  first module calls. An instance is a value of type \<open>'c\<close>.
\<close>

record 'c classifier_ops =
  clf_fit :: "'c \<Rightarrow> mat \<Rightarrow> int list \<Rightarrow> error + 'c"
  clf_predict :: "'c \<Rightarrow> mat \<Rightarrow> error + int list"
  clf_score :: "'c \<Rightarrow> mat \<Rightarrow> int list \<Rightarrow> error + real"
  clf_coef :: "'c \<Rightarrow> mat option"
  clf_intercept :: "'c \<Rightarrow> vec option"
  LinearSVC :: "int \<Rightarrow> 'c"

type_synonym kwargs = "(string \<times> real) list"

subsection \<open>\<^verbatim>\<open>RFClassifier\<close> of the second module\<close>

text \<open>
  An attribute that \<^verbatim>\<open>__init__\<close> does not set is \<open>None\<close> until \<^verbatim>\<open>fit\<close> sets it. The weight
  function receives \<open>width\<close>, \<open>n_features\<close>, the keyword arguments and \<open>random_state\<close>.
\<close>

record ('g, 'c) RFClassifier =
  width :: nat
  nonlinearity :: "mat \<Rightarrow> mat"
  weight_fun :: "nat \<Rightarrow> nat \<Rightarrow> kwargs \<Rightarrow> int option \<Rightarrow> 'g world \<Rightarrow> (error + mat) \<times> 'g world"
  bias :: bias
  clf :: 'c
  kwargs :: "kwargs option"
  random_state :: "int option"
  W_attr :: "mat option"
  b_attr :: "bias option"
  H_attr :: "mat option"
  coef_attr :: "mat option"
  intercept_attr :: "vec option"

definition RFClassifier_init ::
  "nat \<Rightarrow> (nat \<Rightarrow> nat \<Rightarrow> kwargs \<Rightarrow> int option \<Rightarrow> 'g world \<Rightarrow> (error + mat) \<times> 'g world)
     \<Rightarrow> bias \<Rightarrow> (mat \<Rightarrow> mat) \<Rightarrow> 'c \<Rightarrow> kwargs option \<Rightarrow> int option \<Rightarrow> ('g, 'c) RFClassifier" where
  "RFClassifier_init wd wfun bs nl c kw rs =
     \<lparr>width = wd, nonlinearity = nl, weight_fun = wfun, bias = bs, clf = c, kwargs = kw,
      random_state = rs, W_attr = None, b_attr = None, H_attr = None, coef_attr = None,
      intercept_attr = None\<rparr>"

text \<open>
  The methods that assign attributes return the error, if any, with the object and the
  process state as the call leaves them.
\<close>

definition fit_transform ::
  "('g, 'c) RFClassifier \<Rightarrow> mat \<Rightarrow> 'g world
     \<Rightarrow> (error + unit) \<times> ('g, 'c) RFClassifier \<times> 'g world" where
  "fit_transform self X w =
     (let n_features = ncols X in
      (case (case kwargs self of
               Some kw \<Rightarrow> weight_fun self (width self) n_features kw (random_state self) w
             | None \<Rightarrow> weight_fun self (width self) n_features [] (random_state self) w) of
         (Inl e, w1) \<Rightarrow> (Inl e, self, w1)
       | (Inr W, w1) \<Rightarrow>
           (let self1 = self\<lparr>W_attr := Some W\<rparr> in
            (let self2 = self1\<lparr>b_attr := Some (bias self1)\<rparr> in
             (case matmul X (transpose_mat W) of
                Inl e \<Rightarrow> (Inl e, self2, w1)
              | Inr P \<Rightarrow>
                  (case add_bias P (bias self2) of
                     Inl e \<Rightarrow> (Inl e, self2, w1)
                   | Inr Q \<Rightarrow>
                       (Inr (), self2\<lparr>H_attr := Some (nonlinearity self2 Q)\<rparr>, w1)))))))"

definition fit ::
  "'c classifier_ops \<Rightarrow> ('g, 'c) RFClassifier \<Rightarrow> mat \<Rightarrow> int list \<Rightarrow> 'g world
     \<Rightarrow> (error + unit) \<times> ('g, 'c) RFClassifier \<times> 'g world" where
  "fit ops self X y w =
     (case fit_transform self X w of
        (Inl e, self1, w1) \<Rightarrow> (Inl e, self1, w1)
      | (Inr _, self1, w1) \<Rightarrow>
          (case H_attr self1 of
             None \<Rightarrow> (Inl AttributeError, self1, w1)
           | Some H \<Rightarrow>
               (case clf_fit ops (clf self1) H y of
                  Inl e \<Rightarrow> (Inl e, self1, w1)
                | Inr c \<Rightarrow>
                    let self2 = self1\<lparr>clf := c\<rparr> in
                    (case clf_coef ops c of
                       None \<Rightarrow> (Inl AttributeError, self2, w1)
                     | Some cf \<Rightarrow>
                         let self3 = self2\<lparr>coef_attr := Some cf\<rparr> in
                         (case clf_intercept ops c of
                            None \<Rightarrow> (Inl AttributeError, self3, w1)
                          | Some ic \<Rightarrow> (Inr (), self3\<lparr>intercept_attr := Some ic\<rparr>, w1))))))"

text \<open>
  \<^verbatim>\<open>check_is_fitted(self, ["W_", "b_"])\<close> raises \<^verbatim>\<open>NotFittedError\<close> unless every listed
  attribute exists. The attributes \<^verbatim>\<open>W_\<close>, \<^verbatim>\<open>b_\<close>, \<^verbatim>\<open>H_\<close>, \<^verbatim>\<open>coef_\<close> and \<^verbatim>\<open>intercept_\<close> are
  the fields \<open>W_attr\<close>, \<open>b_attr\<close>, \<open>H_attr\<close>, \<open>coef_attr\<close> and \<open>intercept_attr\<close>.
\<close>

definition transform :: "('g, 'c) RFClassifier \<Rightarrow> mat \<Rightarrow> error + mat" where
  "transform self X =
     (case (W_attr self, b_attr self) of
        (Some W, Some b) \<Rightarrow>
          (case matmul X (transpose_mat W) of
             Inl e \<Rightarrow> Inl e
           | Inr P \<Rightarrow>
               (case add_bias P b of
                  Inl e \<Rightarrow> Inl e
                | Inr Q \<Rightarrow> Inr (nonlinearity self Q)))
      | _ \<Rightarrow> Inl NotFittedError)"

definition score ::
  "'c classifier_ops \<Rightarrow> ('g, 'c) RFClassifier \<Rightarrow> mat \<Rightarrow> int list \<Rightarrow> error + real" where
  "score ops self X y =
     (case transform self X of
        Inl e \<Rightarrow> Inl e
      | Inr H \<Rightarrow>
          (case (coef_attr self, intercept_attr self) of
             (Some _, Some _) \<Rightarrow> clf_score ops (clf self) H y
           | _ \<Rightarrow> Inl NotFittedError))"

text \<open>
  The class defines no method \<^verbatim>\<open>predict\<close>, and neither do its bases \<^verbatim>\<open>BaseEstimator\<close> and
  \<^verbatim>\<open>ClassifierMixin\<close>: looking the attribute up on an instance is an \<^verbatim>\<open>AttributeError\<close>.
\<close>

definition predict :: "('g, 'c) RFClassifier \<Rightarrow> mat \<Rightarrow> error + int list" where
  "predict self X = Inl AttributeError"

subsection \<open>\<^verbatim>\<open>RFClassifier\<close> of the first module\<close>

text \<open>
  The attribute \<^verbatim>\<open>clf\<close> holds \<^verbatim>\<open>None\<close>, a class to be called with \<^verbatim>\<open>clf_args\<close>, or, once
  \<^verbatim>\<open>fit\<close> has assigned it, an instance; an instance is not callable. Reading an attribute
  that was never assigned is an \<^verbatim>\<open>AttributeError\<close>.
\<close>

datatype 'c clf_slot = ClfNone | ClfClass "kwargs \<Rightarrow> error + 'c" | ClfInstance 'c

record ('g, 'c) legacy_RFClassifier =
  legacy_width :: nat
  legacy_weights :: "'g weights_arg"
  legacy_nonlinearity :: "mat \<Rightarrow> mat"
  legacy_clf :: "'c clf_slot"
  legacy_weight_fun :: "(nat \<Rightarrow> nat \<Rightarrow> 'g world \<Rightarrow> (error + mat) \<times> 'g world) option"
  legacy_clf_args :: kwargs
  legacy_seed :: "int option"
  legacy_W_attr :: "mat option"
  legacy_fitted :: "bool option"

definition legacy_init ::
  "nat \<Rightarrow> 'g weights_arg \<Rightarrow> (mat \<Rightarrow> mat) \<Rightarrow> 'c clf_slot
     \<Rightarrow> (nat \<Rightarrow> nat \<Rightarrow> 'g world \<Rightarrow> (error + mat) \<times> 'g world) option \<Rightarrow> kwargs \<Rightarrow> int option
     \<Rightarrow> ('g, 'c) legacy_RFClassifier" where
  "legacy_init wd ws nl c wfun ca sd =
     \<lparr>legacy_width = wd, legacy_weights = ws, legacy_nonlinearity = nl, legacy_clf = c,
      legacy_weight_fun = wfun, legacy_clf_args = ca, legacy_seed = sd, legacy_W_attr = None,
      legacy_fitted = None\<rparr>"

definition legacy_fit ::
  "'g np_random \<Rightarrow> 'c classifier_ops \<Rightarrow> ('g, 'c) legacy_RFClassifier \<Rightarrow> mat \<Rightarrow> int list
     \<Rightarrow> 'g world \<Rightarrow> (error + unit) \<times> ('g, 'c) legacy_RFClassifier \<times> 'g world" where
  "legacy_fit lib ops self X y w =
     (if length X \<noteq> length y then (Inl ValueError, self, w)
      else
        (let n = ncols X in
         (case (case legacy_seed self of
                  None \<Rightarrow>
                    (case next_below lib 1000 (rng w) of
                       (k, g) \<Rightarrow> (int k, self\<lparr>legacy_seed := Some (int k)\<rparr>, w\<lparr>rng := g\<rparr>))
                | Some k \<Rightarrow> (k, self, w)) of
            (sd, self1, w1) \<Rightarrow>
              (case (case legacy_clf self1 of
                       ClfNone \<Rightarrow> Inr (LinearSVC ops sd)
                     | ClfClass mk \<Rightarrow> mk (legacy_clf_args self1)
                     | ClfInstance _ \<Rightarrow> Inl TypeError) of
                 Inl e \<Rightarrow> (Inl e, self1, w1)
               | Inr c \<Rightarrow>
                   (let self2 = self1\<lparr>legacy_clf := ClfInstance c\<rparr> in
                    (case (case legacy_weight_fun self2 of
                             Some f \<Rightarrow> f (legacy_width self2) n w1
                           | None \<Rightarrow>
                               random_feature_matrix lib (legacy_width self2) n
                                 (legacy_weights self2) (Some sd) w1) of
                       (Inl e, w2) \<Rightarrow> (Inl e, self2, w2)
                     | (Inr W, w2) \<Rightarrow>
                         (let self3 = self2\<lparr>legacy_W_attr := Some W\<rparr> in
                          (case matmul X W of
                             Inl e \<Rightarrow> (Inl e, self3, w2)
                           | Inr P \<Rightarrow>
                               (case clf_fit ops c (legacy_nonlinearity self3 P) y of
                                  Inl e \<Rightarrow> (Inl e, self3, w2)
                                | Inr c' \<Rightarrow>
                                    (Inr (),
                                     self3\<lparr>legacy_clf := ClfInstance c',
                                           legacy_fitted := Some True\<rparr>,
                                     w2))))))))))"

definition legacy_transform :: "('g, 'c) legacy_RFClassifier \<Rightarrow> mat \<Rightarrow> error + mat" where
  "legacy_transform self X =
     (case legacy_W_attr self of
        None \<Rightarrow> Inl AttributeError
      | Some W \<Rightarrow>
          (case matmul X W of
             Inl e \<Rightarrow> Inl e
           | Inr P \<Rightarrow> Inr (legacy_nonlinearity self P)))"

definition legacy_predict ::
  "'c classifier_ops \<Rightarrow> ('g, 'c) legacy_RFClassifier \<Rightarrow> mat \<Rightarrow> error + int list" where
  "legacy_predict ops self X =
     (case legacy_W_attr self of
        None \<Rightarrow> Inl AttributeError
      | Some W \<Rightarrow>
          (case matmul X W of
             Inl e \<Rightarrow> Inl e
           | Inr P \<Rightarrow>
               (case legacy_clf self of
                  ClfNone \<Rightarrow> Inl AttributeError
                | ClfClass _ \<Rightarrow> Inl TypeError
                | ClfInstance c \<Rightarrow> clf_predict ops c (legacy_nonlinearity self P))))"

definition legacy_score ::
  "'c classifier_ops \<Rightarrow> ('g, 'c) legacy_RFClassifier \<Rightarrow> mat \<Rightarrow> int list \<Rightarrow> error + real" where
  "legacy_score ops self X y =
     (case legacy_W_attr self of
        None \<Rightarrow> Inl AttributeError
      | Some W \<Rightarrow>
          (case matmul X W of
             Inl e \<Rightarrow> Inl e
           | Inr P \<Rightarrow>
               (case legacy_clf self of
                  ClfNone \<Rightarrow> Inl AttributeError
                | ClfClass _ \<Rightarrow> Inl TypeError
                | ClfInstance c \<Rightarrow> clf_score ops c (legacy_nonlinearity self P) y)))"

subsection \<open>Nonlinearities\<close>

definition poly :: "nat \<Rightarrow> mat \<Rightarrow> mat" where
  "poly pw x = map (map (\<lambda>v. v ^ pw)) x"

section \<open>The feature map of the specification\<close>

text \<open>
  The feature map in the words of the specification, \<open>nonlinearity(X \<cdot> W\<^sup>T + b)\<close>, for a weight
  matrix \<open>W\<close> of shape \<open>(width, n_features)\<close> and a bias that is a scalar or has one entry per
  direction: entry \<open>j\<close> of the row of a sample \<open>x\<close> is the inner product of \<open>x\<close> with row \<open>j\<close> of
  \<open>W\<close>, plus the bias of direction \<open>j\<close>. It is written without the matrix product, the
  transposition and the broadcasting of the program, with which it is compared below.
\<close>

definition bias_at :: "bias \<Rightarrow> nat \<Rightarrow> real" where
  "bias_at b j = (case b of BScalar c \<Rightarrow> c | BVec v \<Rightarrow> if length v = 1 then hd v else v ! j)"

definition spec_feature_map :: "(mat \<Rightarrow> mat) \<Rightarrow> mat \<Rightarrow> bias \<Rightarrow> mat \<Rightarrow> mat" where
  "spec_feature_map nl W b X =
     nl (map (\<lambda>x. map (\<lambda>j. dotp x (W ! j) + bias_at b j) [0..<length W]) X)"

text \<open>
  The inputs the comparison is about: \<open>W\<close> is a rectangular array with at least one row and
  one column, \<open>X\<close> has as many columns as \<open>W\<close>, the feature count of the fit, and a bias array
  has shape \<open>(width,)\<close> or \<open>(1,)\<close>, as the docstring of the class has it.
\<close>

definition feature_input_ok :: "mat \<Rightarrow> mat \<Rightarrow> bool" where
  "feature_input_ok W X =
     (ncols W \<noteq> 0 \<and> list_all (\<lambda>r. length r = ncols W) W \<and> ncols X = ncols W)"

definition bias_fits :: "bias \<Rightarrow> mat \<Rightarrow> bool" where
  "bias_fits b W = (case b of BScalar c \<Rightarrow> True | BVec v \<Rightarrow> length v = length W \<or> length v = 1)"

text \<open>
  The expression \<^verbatim>\<open>nonlinearity(np.dot(X, W.T) + b)\<close> as the program evaluates it, with the
  errors of the product and of the broadcast.
\<close>

definition computed_feature_map :: "(mat \<Rightarrow> mat) \<Rightarrow> mat \<Rightarrow> bias \<Rightarrow> mat \<Rightarrow> error + mat" where
  "computed_feature_map nl W b X =
     (case matmul X (transpose_mat W) of
        Inl e \<Rightarrow> Inl e
      | Inr P \<Rightarrow> (case add_bias P b of Inl e \<Rightarrow> Inl e | Inr Q \<Rightarrow> Inr (nl Q)))"

section \<open>A small instance of the libraries\<close>

text \<open>
  A counter as generator state and a classifier that only checks the number of samples and
  remembers its training data: with them the definitions can be run on concrete inputs.
\<close>

definition toy_random :: "nat np_random" where
  "toy_random =
     \<lparr>seed_state = nat,
      next_normal = (\<lambda>g. (real (g mod 5) - 2, Suc g)),
      next_double = (\<lambda>g. (real (g mod 4) / 4, Suc g)),
      next_below = (\<lambda>n g. (g mod n, Suc g))\<rparr>"

definition toy_world :: "nat world" where
  "toy_world = \<lparr>rng = 7, entropy = (\<lambda>i. 100 + i)\<rparr>"

definition toy_classifier :: "(mat \<times> int list) option classifier_ops" where
  "toy_classifier =
     \<lparr>clf_fit = (\<lambda>c H y. if length H = length y then Inr (Some (H, y)) else Inl ValueError),
      clf_predict = (\<lambda>c H. Inr (map (\<lambda>_. 0) H)),
      clf_score = (\<lambda>c H y. if length H = length y then Inr 1 else Inl ValueError),
      clf_coef = (\<lambda>c. case c of None \<Rightarrow> None | Some _ \<Rightarrow> Some [[0]]),
      clf_intercept = (\<lambda>c. case c of None \<Rightarrow> None | Some _ \<Rightarrow> Some [0]),
      LinearSVC = (\<lambda>sd. None)\<rparr>"

text \<open>\<^verbatim>\<open>classical_weights\<close> as the \<^verbatim>\<open>weight_fun\<close> of the second module: it takes no keywords.\<close>

definition classical_weight_fun ::
  "'g np_random \<Rightarrow> nat \<Rightarrow> nat \<Rightarrow> kwargs \<Rightarrow> int option \<Rightarrow> 'g world \<Rightarrow> (error + mat) \<times> 'g world" where
  "classical_weight_fun lib M N kw rs w =
     (if kw = [] then classical_weights lib M N rs w else (Inl TypeError, w))"

text \<open>
  Two adapters on these libraries: \<^verbatim>\<open>RFClassifier(width=1, weight_fun=classical_weights,
  bias=0, nonlinearity=relu, clf=..., random_state=1)\<close> of the second module and
  \<^verbatim>\<open>RFClassifier(width=2)\<close> of the first, with its defaults \<^verbatim>\<open>weights='white noise'\<close>,
  \<^verbatim>\<open>nonlinearity=relu\<close>, \<^verbatim>\<open>clf=None\<close>, \<^verbatim>\<open>seed=None\<close>.
\<close>

definition toy_adapter :: "(nat, (mat \<times> int list) option) RFClassifier" where
  "toy_adapter =
     RFClassifier_init 1 (classical_weight_fun toy_random) (BScalar 0) (relu 0) None None (Some 1)"

definition toy_legacy_adapter :: "(nat, (mat \<times> int list) option) legacy_RFClassifier" where
  "toy_legacy_adapter = legacy_init 2 (WStr ''white noise'') (relu 0) ClfNone None [] None"

text \<open>
  A classifier that, like \<^verbatim>\<open>LinearSVC\<close>, refuses labels of fewer than two classes: it
  remembers its training data, predicts 1 where the features of a sample sum to more than 0
  and scores the fraction of labels it predicts. With it, the adapter of the second module
  with \<^verbatim>\<open>bias=3\<close>.
\<close>

definition toy_svc :: "(mat \<times> int list) option classifier_ops" where
  "toy_svc =
     \<lparr>clf_fit = (\<lambda>c H y. if length H = length y \<and> 2 \<le> length (remdups y)
                          then Inr (Some (H, y)) else Inl ValueError),
      clf_predict = (\<lambda>c H. Inr (map (\<lambda>r. if 0 < sum_list r then 1 else 0) H)),
      clf_score = (\<lambda>c H y. if length H = length y
                            then Inr (real (length (filter (\<lambda>(r, l). (if 0 < sum_list r then 1 else 0) = l)
                                                   (zip H y))) / real (length y))
                            else Inl ValueError),
      clf_coef = (\<lambda>c. case c of None \<Rightarrow> None | Some _ \<Rightarrow> Some [[0]]),
      clf_intercept = (\<lambda>c. case c of None \<Rightarrow> None | Some _ \<Rightarrow> Some [0]),
      LinearSVC = (\<lambda>sd. None)\<rparr>"

definition toy_biased_adapter :: "(nat, (mat \<times> int list) option) RFClassifier" where
  "toy_biased_adapter =
     RFClassifier_init 1 (classical_weight_fun toy_random) (BScalar 3) (relu 0) None None (Some 1)"

section \<open>Shapes and draws\<close>

lemma has_shape_iff: "has_shape A m n \<longleftrightarrow> length A = m \<and> (\<forall>r\<in>set A. length r = n)"
  by (simp add: has_shape_def list_all_iff)

lemma fst_bind_res:
  "fst (bind_res r f) = (case fst r of Inl e \<Rightarrow> Inl e | Inr x \<Rightarrow> fst (f x (snd r)))"
  by (cases r) (simp add: bind_res_def split: sum.splits)

lemma length_draws: "length (fst (draws f n g)) = n"
proof (induction n arbitrary: g)
  case 0
  then show ?case by simp
next
  case (Suc n)
  obtain x g' where x: "f g = (x, g')" by (cases "f g")
  obtain xs g'' where xs: "draws f n g' = (xs, g'')" by (cases "draws f n g'")
  have "length xs = n" using Suc [of g'] xs by simp
  then show ?case using x xs by simp
qed

lemma draws_mat_shape: "has_shape (fst (draws_mat f m n g)) m n"
proof (induction m arbitrary: g)
  case 0
  then show ?case by (simp add: has_shape_def)
next
  case (Suc m)
  obtain r g' where r: "draws f n g = (r, g')" by (cases "draws f n g")
  have "length r = n" using length_draws [of f n g] r by simp
  moreover obtain rs g'' where rs: "draws_mat f m n g' = (rs, g'')" by (cases "draws_mat f m n g'")
  moreover have "has_shape rs m n" using Suc [of g'] rs by simp
  ultimately show ?case using r by (simp add: has_shape_def)
qed

lemma ncols_shape: "has_shape A m n \<Longrightarrow> 0 < m \<Longrightarrow> ncols A = n"
  by (cases A) (simp_all add: has_shape_def ncols_def)

lemma transpose_shape:
  assumes "has_shape A m n" "0 < m"
  shows "has_shape (transpose_mat A) n m"
  using assms ncols_shape [OF assms]
  by (simp add: has_shape_iff transpose_mat_def)

lemma normalize_rows_shape: "has_shape W m n \<Longrightarrow> has_shape (normalize_rows W) m n"
  by (auto simp: has_shape_iff normalize_rows_def)

lemma dot_dft_real_shape: "has_shape (dot_dft_real N rand) (length rand) N"
  by (simp add: has_shape_iff dot_dft_real_def)

lemma ncols_eye: "ncols (eye N) = N"
  by (cases N) (simp_all add: ncols_def eye_def upt_conv_Cons del: upt_Suc)

lemma transpose_eye: "transpose_mat (eye N) = eye N"
  unfolding transpose_mat_def ncols_eye
  by (auto simp: eye_def intro!: nth_equalityI)

lemma eye_shape: "has_shape (eye N) N N"
  by (simp add: has_shape_iff eye_def)

lemma classical_weights_shape:
  assumes "fst (classical_weights lib M N rs w) = Inr W"
  shows "has_shape W M N"
proof -
  obtain r w1 where s: "np_random_seed lib rs w = (r, w1)"
    by (cases "np_random_seed lib rs w")
  obtain rand g where d: "draws_mat (next_complex lib) M N (rng w1) = (rand, g)"
    by (cases "draws_mat (next_complex lib) M N (rng w1)")
  have "has_shape rand M N" using draws_mat_shape [of "next_complex lib" M N "rng w1"] d by simp
  then have "length rand = M" by (simp add: has_shape_def)
  then have "has_shape (dot_dft_real N rand) M N"
    using dot_dft_real_shape [of N rand] by simp
  then have "has_shape (normalize_rows (dot_dft_real N rand)) M N"
    by (rule normalize_rows_shape)
  then show ?thesis using assms s d
    by (cases r) (auto simp: classical_weights_def bind_res_def)
qed

section \<open>Seeding makes the generators independent of the process state\<close>

lemma seed_Some:
  "np_random_seed lib (Some k) w =
     (if 0 \<le> k \<and> k < 2 ^ 32 then (Inr (), w\<lparr>rng := seed_state lib k\<rparr>) else (Inl ValueError, w))"
  by (simp add: np_random_seed_def)

lemma seed_valid:
  "0 \<le> k \<and> k < 2 ^ 32 \<Longrightarrow> np_random_seed lib (Some k) w = (Inr (), w\<lparr>rng := seed_state lib k\<rparr>)"
  by (simp add: np_random_seed_def)

lemma seed_invalid:
  "\<not> (0 \<le> k \<and> k < 2 ^ 32) \<Longrightarrow> np_random_seed lib (Some k) w = (Inl ValueError, w)"
  by (simp add: np_random_seed_def)

lemma classical_weights_Some:
  "fst (classical_weights lib M N (Some k) w) =
     (if 0 \<le> k \<and> k < 2 ^ 32
      then Inr (normalize_rows (dot_dft_real N
                  (fst (draws_mat (next_complex lib) M N (seed_state lib k)))))
      else Inl ValueError)"
  by (simp add: classical_weights_def bind_res_def seed_Some split: prod.splits)

lemma haltere_Some:
  "fst (haltere_inspired_weights lib M N lowcut highcut (Some k) w) =
     (if 0 \<le> k \<and> k < 2 ^ 32 then
        (if highcut - lowcut < 0 then Inl ValueError
         else
           let d = nat (highcut - lowcut);
               start = slice_bound lowcut N;
               len = slice_bound highcut N - start;
               vals = fst (draws_mat (next_complex lib) M d (seed_state lib k))
           in if (if d = 1 then M = 1 \<or> M = len else d = len) then
                Inr (normalize_rows (dot_dft_real N
                  (map (\<lambda>v. replicate start 0 @ take len v @ replicate (N - start - len) 0) vals)))
              else Inl ValueError)
      else Inl ValueError)"
  by (simp add: haltere_inspired_weights_def bind_res_def seed_Some Let_def split: prod.splits)

lemma unimodal_rng:
  "fst (unimodal lib M N (w\<lparr>rng := g\<rparr>)) = fst (unimodal lib M N (w'\<lparr>rng := g\<rparr>))"
  by (simp add: unimodal_def uniform_def randint_def bind_res_def split: prod.splits)

lemma randn_rng:
  "fst (randn lib M N (w\<lparr>rng := g\<rparr>)) = fst (randn lib M N (w'\<lparr>rng := g\<rparr>))"
  by (simp add: randn_def split: prod.splits)

lemma random_feature_matrix_WStr:
  "fst (random_feature_matrix lib M N (WStr s) (Some k) w)
   = fst (random_feature_matrix lib M N (WStr s) (Some k) w')"
proof (cases "0 \<le> k \<and> k < 2 ^ 32")
  case True
  note u = unimodal_rng [where lib = lib and M = M and N = N and w = w and w' = w'
      and g = "seed_state lib k"]
  note r = randn_rng [where lib = lib and M = M and N = N and w = w and w' = w'
      and g = "seed_state lib k"]
  consider "s = ''unimodal''" | "s \<noteq> ''unimodal''" "s = ''white noise''"
    | "s \<noteq> ''unimodal''" "s \<noteq> ''white noise''" by blast
  then show ?thesis
  proof cases
    case 1
    then show ?thesis using True u
      by (simp add: random_feature_matrix_def fst_bind_res seed_valid split: sum.splits)
  next
    case 2
    then show ?thesis using True r
      by (auto simp: random_feature_matrix_def fst_bind_res seed_valid split: prod.splits)
  next
    case 3
    then show ?thesis using True
      by (simp add: random_feature_matrix_def fst_bind_res seed_valid)
  qed
next
  case False
  then show ?thesis
    by (simp add: random_feature_matrix_def bind_res_def seed_invalid)
qed

lemma random_feature_matrix_WNone:
  "fst (random_feature_matrix lib M N WNone (Some k) w)
   = fst (random_feature_matrix lib M N WNone (Some k) w')"
proof (cases "0 \<le> k \<and> k < 2 ^ 32")
  case True
  then show ?thesis
    by (simp add: random_feature_matrix_def fst_bind_res seed_valid)
next
  case False
  then show ?thesis
    by (simp add: random_feature_matrix_def bind_res_def seed_invalid)
qed

lemma for_center_Some:
  "fst (V1_inspired_weights_for_center lib N t l m (Some k) w)
   = fst (V1_inspired_weights_for_center lib N t l m (Some k) w')"
proof (cases "0 \<le> k \<and> k < 2 ^ 32")
  case True
  then show ?thesis
    by (cases "V1_inspired_kernel_matrix N t l m"; cases "cholesky (projr (V1_inspired_kernel_matrix N t l m))";
        cases "draws (next_normal lib) N (seed_state lib k)")
      (simp_all add: V1_inspired_weights_for_center_def bind_res_def seed_valid)
next
  case False
  then show ?thesis
    by (simp add: V1_inspired_weights_for_center_def bind_res_def seed_invalid)
qed

lemma V1_rows_Some:
  "fst (V1_rows lib N t l (Some k) cs W w) = fst (V1_rows lib N t l (Some k) cs W w')"
proof (induction cs arbitrary: W w w')
  case Nil
  then show ?case by simp
next
  case (Cons m ms)
  show ?case
    using for_center_Some [of lib N t l "(real (fst m), real (snd m))" k w w'] Cons.IH
    by (simp add: fst_bind_res split: sum.splits)
qed

lemma V1_centers_Some:
  "fst (V1_centers lib M N (Some k) w) = fst (V1_centers lib M N (Some k) w')"
  by (simp add: V1_centers_def fst_bind_res seed_Some Let_def split: prod.splits)

lemma V1_inspired_weights_Some:
  "fst (V1_inspired_weights lib M N t l (Some k) w)
   = fst (V1_inspired_weights lib M N t l (Some k) w')"
  using V1_centers_Some [of lib M N k w w'] V1_rows_Some [of lib N t l k]
  by (simp add: V1_inspired_weights_def fst_bind_res split: sum.splits)

section \<open>The rows of the receptive-field generator\<close>

lemma V1_centers_length:
  assumes "fst (V1_centers lib M N rs w) = Inr cs"
  shows "length cs = M"
proof -
  obtain r w1 where s: "np_random_seed lib rs w = (r, w1)"
    by (cases "np_random_seed lib rs w")
  let ?h = "nat \<lfloor>sqrt (real N)\<rfloor>"
  obtain cs' g where d: "draws (next_center lib ?h) M (rng w1) = (cs', g)"
    by (cases "draws (next_center lib ?h) M (rng w1)")
  have "length cs' = M" using length_draws [of "next_center lib ?h" M "rng w1"] d by simp
  then show ?thesis using assms s d
    by (cases r) (auto simp: V1_centers_def bind_res_def Let_def split: if_splits)
qed

lemma V1_rows_value:
  assumes "fst (V1_rows lib N t l (Some k) cs W w) = Inr R"
  shows "\<exists>rows. R = W @ rows \<and>
           map (\<lambda>m. fst (V1_inspired_weights_for_center lib N t l
                  (real (fst m), real (snd m)) (Some k) w0)) cs = map Inr rows"
  using assms
proof (induction cs arbitrary: W w)
  case Nil
  then show ?case by simp
next
  case (Cons m ms)
  let ?c = "(real (fst m), real (snd m))"
  let ?f = "\<lambda>m. fst (V1_inspired_weights_for_center lib N t l
                  (real (fst m), real (snd m)) (Some k) w0)"
  obtain r s where r: "V1_inspired_weights_for_center lib N t l ?c (Some k) w = (r, s)"
    by (cases "V1_inspired_weights_for_center lib N t l ?c (Some k) w")
  have r0: "?f m = r"
    using for_center_Some [of lib N t l ?c k w0 w] r by simp
  show ?case
  proof (cases r)
    case (Inl e)
    then show ?thesis using Cons.prems r by (simp add: bind_res_def)
  next
    case (Inr wv)
    then have "fst (V1_rows lib N t l (Some k) ms (W @ [wv]) s) = Inr R"
      using Cons.prems r by (simp add: bind_res_def split: if_splits)
    then obtain rows where "R = (W @ [wv]) @ rows" and "map ?f ms = map Inr rows"
      using Cons.IH by blast
    then have "R = W @ (wv # rows) \<and> map ?f (m # ms) = map Inr (wv # rows)"
      using r0 Inr by simp
    then show ?thesis by blast
  qed
qed

lemma V1_rows_shape:
  assumes "fst (V1_rows lib N t l rs cs W w) = Inr R" "\<forall>r\<in>set W. length r = N"
  shows "length R = length W + length cs \<and> (\<forall>r\<in>set R. length r = N)"
  using assms
proof (induction cs arbitrary: W w)
  case Nil
  then show ?case by simp
next
  case (Cons m ms)
  let ?c = "(real (fst m), real (snd m))"
  obtain r s where r: "V1_inspired_weights_for_center lib N t l ?c rs w = (r, s)"
    by (cases "V1_inspired_weights_for_center lib N t l ?c rs w")
  show ?case
  proof (cases r)
    case (Inl e)
    then show ?thesis using Cons.prems r by (simp add: bind_res_def)
  next
    case (Inr wv)
    then have len: "length wv = N" and "fst (V1_rows lib N t l rs ms (W @ [wv]) s) = Inr R"
      using Cons.prems r by (simp_all add: bind_res_def split: if_splits)
    moreover have "\<forall>r\<in>set (W @ [wv]). length r = N" using len Cons.prems(2) by simp
    ultimately have "length R = length (W @ [wv]) + length ms \<and> (\<forall>r\<in>set R. length r = N)"
      using Cons.IH by blast
    then show ?thesis by simp
  qed
qed

lemma V1_inspired_weights_shape:
  assumes "fst (V1_inspired_weights lib M N t l rs w) = Inr W"
  shows "has_shape W M N"
proof -
  obtain r w1 where c: "V1_centers lib M N rs w = (r, w1)" by (cases "V1_centers lib M N rs w")
  show ?thesis
  proof (cases r)
    case (Inl e)
    then show ?thesis using assms c by (simp add: V1_inspired_weights_def bind_res_def)
  next
    case (Inr cs)
    then have "length cs = M" using V1_centers_length [of lib M N rs w cs] c by simp
    moreover have "fst (V1_rows lib N t l rs cs [] w1) = Inr W"
      using assms c Inr by (simp add: V1_inspired_weights_def bind_res_def)
    ultimately show ?thesis using V1_rows_shape [of lib N t l rs cs "[]" w1 W]
      by (simp add: has_shape_iff)
  qed
qed

text \<open>The generator on one feature, with the counter as generator state.\<close>

lemma kernel_1: "V1_inspired_kernel_matrix (Suc 0) t l (0, 0) = Inr [[1000001 / 100000]]"
  by (simp add: V1_inspired_kernel_matrix_def eye_def)

lemma cholesky_1: "0 < c \<Longrightarrow> cholesky [[c]] = Inr [[sqrt c]]"
  by (simp add: cholesky_def dotp_def)

lemma toy_center_row:
  "V1_inspired_weights_for_center toy_random (Suc 0) t l (0, 0) (Some 0) w
   = (Inr [sqrt (1000001 / 100000) * (- 2)], w\<lparr>rng := Suc 0\<rparr>)"
  by (simp add: V1_inspired_weights_for_center_def bind_res_def np_random_seed_def kernel_1
      cholesky_1 toy_random_def ncols_def dotp_def)

lemma toy_centers:
  "V1_centers toy_random 2 (Suc 0) (Some 0) w = (Inr [(0, 0), (0, 0)], w\<lparr>rng := 4\<rparr>)"
  by (simp add: V1_centers_def bind_res_def np_random_seed_def toy_random_def next_center_def
      numeral_2_eq_2)

lemma toy_V1:
  "fst (V1_inspired_weights toy_random 2 1 t l (Some 0) w)
   = Inr [[sqrt (1000001 / 100000) * (- 2)], [sqrt (1000001 / 100000) * (- 2)]]"
  by (simp add: V1_inspired_weights_def bind_res_def toy_centers toy_center_row)

section \<open>The kernel grid\<close>

lemma length_grid: "length (concat (map (\<lambda>a. map (f a) xs) ys)) = length ys * length xs"
  by (induction ys) simp_all

lemma kernel_nonsquare:
  assumes "\<nexists>k. N = k * k"
  shows "V1_inspired_kernel_matrix N t l m = Inl ValueError"
proof -
  let ?g = "nat \<lceil>sqrt (real N)\<rceil>"
  have "?g * ?g \<noteq> N" using assms by metis
  then show ?thesis
    by (simp add: V1_inspired_kernel_matrix_def Let_def length_grid)
qed

lemma seed_error: "fst (np_random_seed lib rs w) = Inl e \<Longrightarrow> e = ValueError"
  by (auto simp: np_random_seed_def split: option.splits if_splits)

lemma for_center_nonsquare:
  assumes "\<nexists>k. N = k * k"
  shows "fst (V1_inspired_weights_for_center lib N t l m rs w) = Inl ValueError"
proof (cases "fst (np_random_seed lib rs w)")
  case (Inl e)
  then show ?thesis using seed_error [OF Inl]
    by (simp add: V1_inspired_weights_for_center_def fst_bind_res)
next
  case (Inr u)
  then show ?thesis using kernel_nonsquare [OF assms]
    by (simp add: V1_inspired_weights_for_center_def fst_bind_res)
qed

lemma V1_weights_nonsquare:
  assumes "\<nexists>k. N = k * k" and "0 < M"
  shows "fst (V1_inspired_weights lib M N t l rs w) = Inl ValueError"
proof (cases "fst (V1_centers lib M N rs w)")
  case (Inl e)
  then have "e = ValueError"
    using seed_error [of lib rs w]
    by (auto simp: V1_centers_def fst_bind_res Let_def split: sum.splits if_splits prod.splits)
  then show ?thesis using Inl by (simp add: V1_inspired_weights_def fst_bind_res)
next
  case (Inr cs)
  then have "length cs = M" by (rule V1_centers_length)
  then obtain c cs' where cs: "cs = c # cs'" using assms(2) by (cases cs) auto
  have "fst (V1_inspired_weights_for_center lib N t l (real (fst c), real (snd c)) rs
              (snd (V1_centers lib M N rs w))) = Inl ValueError"
    by (rule for_center_nonsquare [OF assms(1)])
  then show ?thesis
    using Inr cs by (simp add: V1_inspired_weights_def fst_bind_res)
qed

lemma two_nonsquare: "\<nexists>k. (2::nat) = k * k"
proof
  assume "\<exists>k. (2::nat) = k * k"
  then obtain k :: nat where k: "2 = k * k" by blast
  have "k = 0 \<or> k = 1 \<or> 2 \<le> k" by arith
  moreover have False if "2 \<le> k"
  proof -
    have "2 * 2 \<le> k * k" using that by (intro mult_le_mono)
    then show False using k by simp
  qed
  ultimately show False using k by auto
qed

lemma has_shape_map2:
  assumes "has_shape A m n" "has_shape B m n"
  shows "has_shape (map2 (map2 f) A B) m n"
proof -
  have "length (map2 f r e) = n" if "(r, e) \<in> set (zip A B)" for r e
  proof -
    have "r \<in> set A" "e \<in> set B" using that by (auto elim: in_set_zipE)
    then show ?thesis using assms by (simp add: has_shape_iff)
  qed
  then show ?thesis using assms by (auto simp: has_shape_iff)
qed

lemma has_shape_rows_vec:
  assumes "has_shape A m m" "length b = m"
  shows "has_shape (map2 (\<lambda>arow cp. map2 (f cp) arow b) A b) m m"
proof -
  have "length (map2 (f cp) arow b) = m" if "(arow, cp) \<in> set (zip A b)" for arow cp
  proof -
    have "arow \<in> set A" using that by (auto elim: in_set_zipE)
    then show ?thesis using assms by (simp add: has_shape_iff)
  qed
  then show ?thesis using assms by (auto simp: has_shape_iff)
qed

lemma ceiling_sqrt_square: "nat \<lceil>sqrt (real (k * k))\<rceil> = k"
  by simp

lemma kernel_square:
  "\<exists>K. V1_inspired_kernel_matrix (k * k) t l m = Inr K \<and> has_shape K (k * k) (k * k)"
proof -
  define x where "x = map real [0..<k]"
  define grid where "grid = concat (map (\<lambda>xi. map (\<lambda>xj. (xi, xj)) x) x)"
  define a where "a = map (\<lambda>p. map (\<lambda>q. (fst p - fst q) ^ 2 + (snd p - snd q) ^ 2) grid) grid"
  define b where "b = map (\<lambda>p. (sqrt ((fst p - fst m) ^ 2 + (snd p - snd m) ^ 2)) ^ 2) grid"
  define K where "K = map2 (\<lambda>arow cp.
                map2 (\<lambda>apq bq. 10 * exp (- apq / (2 * l ^ 2)) * exp (- bq / (2 * t ^ 2))
                                  * exp (- cp / (2 * t ^ 2))) arow b) a b"
  have "length grid = length x * length x" unfolding grid_def by (rule length_grid)
  then have g: "length grid = k * k" by (simp add: x_def)
  have "has_shape a (k * k) (k * k)" by (simp add: a_def has_shape_iff g)
  moreover have "length b = k * k" by (simp add: b_def g)
  ultimately have "has_shape K (k * k) (k * k)"
    unfolding K_def by (rule has_shape_rows_vec)
  then have "has_shape (map2 (map2 (\<lambda>k e. k + 1 / 100000 * e)) K (eye (k * k))) (k * k) (k * k)"
    using eye_shape by (rule has_shape_map2)
  moreover have "V1_inspired_kernel_matrix (k * k) t l m
      = (if length grid = k * k
         then Inr (map2 (map2 (\<lambda>k e. k + 1 / 100000 * e)) K (eye (k * k)))
         else Inl ValueError)"
    by (simp only: V1_inspired_kernel_matrix_def Let_def ceiling_sqrt_square K_def b_def a_def
        grid_def x_def)
  then have "V1_inspired_kernel_matrix (k * k) t l m
      = Inr (map2 (map2 (\<lambda>k e. k + 1 / 100000 * e)) K (eye (k * k)))"
    by (simp add: g)
  ultimately show ?thesis by simp
qed

lemma floor_lt_ceiling_nonsquare:
  assumes "\<nexists>k. N = k * k"
  shows "nat \<lfloor>sqrt (real N)\<rfloor> < nat \<lceil>sqrt (real N)\<rceil>"
proof -
  define x where "x = sqrt (real N)"
  have x0: "0 \<le> x" by (simp add: x_def)
  have xx: "x * x = real N" by (simp add: x_def)
  have "\<lfloor>x\<rfloor> \<noteq> \<lceil>x\<rceil>"
  proof
    assume eq: "\<lfloor>x\<rfloor> = \<lceil>x\<rceil>"
    have e2: "real_of_int \<lceil>x\<rceil> = real_of_int \<lfloor>x\<rfloor>" by (simp only: eq)
    have "real_of_int \<lfloor>x\<rfloor> \<le> x" by (rule of_int_floor_le)
    moreover have "x \<le> real_of_int \<lceil>x\<rceil>" by (rule le_of_int_ceiling)
    ultimately have x: "x = real_of_int \<lfloor>x\<rfloor>" using e2 by linarith
    have f0: "0 \<le> \<lfloor>x\<rfloor>" using x0 by simp
    define n where "n = nat \<lfloor>x\<rfloor>"
    have "x = real n" using x f0 by (simp add: n_def)
    then have "real N = real (n * n)" using xx by simp
    then have "N = n * n" by (simp only: of_nat_eq_iff)
    then show False using assms by blast
  qed
  moreover have "\<lfloor>x\<rfloor> \<le> \<lceil>x\<rceil>" by (rule floor_le_ceiling)
  moreover have "0 \<le> \<lfloor>x\<rfloor>" using x0 by simp
  ultimately show ?thesis unfolding x_def by linarith
qed

lemma sqrt2_bounds: "nat \<lfloor>sqrt (real 2)\<rfloor> = 1 \<and> nat \<lceil>sqrt (real 2)\<rceil> = 2"
proof -
  have a: "1 < sqrt 2" by simp
  have b: "sqrt 2 < 2" by (rule real_less_lsqrt) simp_all
  have "\<lfloor>sqrt 2\<rfloor> = 1" using a b by (intro floor_unique) simp_all
  moreover have "\<lceil>sqrt 2\<rceil> = 2" using a b by (intro ceiling_unique) simp_all
  ultimately show ?thesis by simp
qed

section \<open>Shapes of the generated matrices\<close>

lemma slice_bound_le: "slice_bound i n \<le> n"
  by (auto simp: slice_bound_def)

lemma slice_bound_step:
  "lowcut \<le> highcut \<Longrightarrow> slice_bound highcut n - slice_bound lowcut n \<le> nat (highcut - lowcut)"
  by (auto simp: slice_bound_def)

lemma placed_length:
  assumes "start \<le> N" "stop \<le> N" "stop - start \<le> length (v :: 'a list)"
  shows "length (replicate start z @ take (stop - start) v @ replicate (N - start - (stop - start)) z) = N"
  using assms by auto

lemma haltere_shape:
  assumes "fst (haltere_inspired_weights lib M N lowcut highcut rs w) = Inr W"
  shows "has_shape W M N"
proof -
  obtain r w1 where s: "np_random_seed lib rs w = (r, w1)"
    by (cases "np_random_seed lib rs w")
  show ?thesis
  proof (cases r)
    case (Inl e)
    then show ?thesis using assms s by (simp add: haltere_inspired_weights_def bind_res_def)
  next
    case (Inr u)
    define d where "d = nat (highcut - lowcut)"
    define start where "start = slice_bound lowcut N"
    define len where "len = slice_bound highcut N - start"
    obtain vals g where v: "draws_mat (next_complex lib) M d (rng w1) = (vals, g)"
      by (cases "draws_mat (next_complex lib) M d (rng w1)")
    define rand where
      "rand = map (\<lambda>v. replicate start 0 @ take len v @ replicate (N - start - len) 0) vals"
    have ge: "\<not> highcut - lowcut < 0" and W: "W = normalize_rows (dot_dft_real N rand)"
      using assms s Inr v
      by (auto simp: haltere_inspired_weights_def bind_res_def Let_def d_def start_def len_def
          rand_def split: if_splits)
    have "has_shape vals M d" using draws_mat_shape [of "next_complex lib" M d "rng w1"] v by simp
    then have "length rand = M" by (simp add: rand_def has_shape_def)
    then have "has_shape (dot_dft_real N rand) M N" using dot_dft_real_shape [of N rand] by simp
    then show ?thesis unfolding W by (rule normalize_rows_shape)
  qed
qed

lemma unimodal_shape:
  assumes "fst (unimodal lib M N w) = Inr J"
  shows "has_shape J M N"
proof -
  obtain us g1 where u: "draws (next_double lib) M (rng w) = (us, g1)"
    by (cases "draws (next_double lib) M (rng w)")
  obtain vs g2 where v: "draws (next_double lib) M g1 = (vs, g2)"
    by (cases "draws (next_double lib) M g1")
  obtain ks g3 where k: "draws (next_below lib (20 - 1)) M g2 = (ks, g3)"
    by (cases "draws (next_below lib (20 - 1)) M g2")
  have lu: "length us = M" using length_draws [of "next_double lib" M "rng w"] u by simp
  have lv: "length vs = M" using length_draws [of "next_double lib" M g1] v by simp
  have lk: "length ks = M" using length_draws [of "next_below lib (20 - 1)" M g2] k by simp
  show ?thesis using assms u v k lu lv lk
    by (auto simp: unimodal_def uniform_def randint_def bind_res_def has_shape_iff gaussian_def
        elim!: in_set_zipE)
qed

lemma randn_shape: "has_shape (fst (randn lib M N w)) M N"
  using draws_mat_shape [of "next_normal lib" M N "rng w"]
  by (cases "draws_mat (next_normal lib) M N (rng w)") (simp add: randn_def)

lemma random_feature_matrix_value:
  assumes "fst (random_feature_matrix lib M N weights rand_seed w) = Inr W"
  shows "\<exists>J w1. W = transpose_mat J \<and>
           fst (if weights = WStr ''unimodal'' then unimodal lib M N w1
                else if weights = WStr ''white noise'' then
                  (case randn lib M N w1 of (J, w2) \<Rightarrow> (Inr J, w2))
                else (case weights of
                        WNone \<Rightarrow> (Inr (eye N), w1)
                      | WFun f \<Rightarrow> f M N w1
                      | WStr _ \<Rightarrow> (Inl TypeError, w1))) = Inr J"
proof -
  define body where "body = (\<lambda>w1.
       if weights = WStr ''unimodal'' then unimodal lib M N w1
       else if weights = WStr ''white noise'' then
         (case randn lib M N w1 of (J, w2) \<Rightarrow> (Inr J, w2))
       else (case weights of
               WNone \<Rightarrow> (Inr (eye N), w1)
             | WFun f \<Rightarrow> f M N w1
             | WStr _ \<Rightarrow> (Inl TypeError, w1)))"
  obtain sd w0 where sd: "(case rand_seed of
              None \<Rightarrow> (case next_below lib 1000 (rng w) of (k, g) \<Rightarrow> (int k, w\<lparr>rng := g\<rparr>))
            | Some k \<Rightarrow> (k, w)) = (sd, w0)"
    by (cases "(case rand_seed of
              None \<Rightarrow> (case next_below lib 1000 (rng w) of (k, g) \<Rightarrow> (int k, w\<lparr>rng := g\<rparr>))
            | Some k \<Rightarrow> (k, w))")
  obtain r w1 where r: "np_random_seed lib (Some sd) w0 = (r, w1)"
    by (cases "np_random_seed lib (Some sd) w0")
  obtain rb w2 where rb: "body w1 = (rb, w2)" by (cases "body w1")
  have eq: "fst (random_feature_matrix lib M N weights rand_seed w)
      = (case r of Inl e \<Rightarrow> Inl e
         | Inr u \<Rightarrow> (case rb of Inl e \<Rightarrow> Inl e | Inr J \<Rightarrow> Inr (transpose_mat J)))"
  proof -
    have "random_feature_matrix lib M N weights rand_seed w
      = (case (case rand_seed of
              None \<Rightarrow> (case next_below lib 1000 (rng w) of (k, g) \<Rightarrow> (int k, w\<lparr>rng := g\<rparr>))
            | Some k \<Rightarrow> (k, w)) of
          (sd, w0) \<Rightarrow>
            bind_res (np_random_seed lib (Some sd) w0) (\<lambda>_ w1.
              bind_res (body w1) (\<lambda>J w2. (Inr (transpose_mat J), w2))))"
      by (simp only: random_feature_matrix_def body_def)
    then show ?thesis using r rb by (simp add: sd bind_res_def split: sum.splits)
  qed
  from assms eq obtain J where "rb = Inr J" "W = transpose_mat J"
    by (auto split: sum.splits)
  then have "W = transpose_mat J \<and> fst (body w1) = Inr J" using rb by simp
  then show ?thesis unfolding body_def by blast
qed

lemma white_noise_shape:
  assumes "fst (random_feature_matrix lib M N (WStr ''white noise'') rand_seed w) = Inr W" "0 < M"
  shows "has_shape W N M"
proof -
  obtain J w1 where W: "W = transpose_mat J"
    and J: "fst (case randn lib M N w1 of (J, w2) \<Rightarrow> (Inr J :: error + mat, w2)) = Inr J"
    using random_feature_matrix_value [OF assms(1)] by auto
  have "J = fst (randn lib M N w1)" using J by (simp split: prod.splits)
  then have "has_shape J M N" using randn_shape by simp
  then show ?thesis unfolding W using assms(2) by (rule transpose_shape)
qed

lemma unimodal_weights_shape:
  assumes "fst (random_feature_matrix lib M N (WStr ''unimodal'') rand_seed w) = Inr W" "0 < M"
  shows "has_shape W N M"
proof -
  obtain J w1 where W: "W = transpose_mat J" and J: "fst (unimodal lib M N w1) = Inr J"
    using random_feature_matrix_value [OF assms(1)] by auto
  have "has_shape J M N" using J by (rule unimodal_shape)
  then show ?thesis unfolding W using assms(2) by (rule transpose_shape)
qed

lemma identity_weights_shape:
  assumes "fst (random_feature_matrix lib M N WNone rand_seed w) = Inr W"
  shows "has_shape W N N"
proof -
  have "W = transpose_mat (eye N)" using random_feature_matrix_value [OF assms] by auto
  then show ?thesis using eye_shape by (simp add: transpose_eye)
qed

text \<open>The generators run with the counter as generator state.\<close>

lemma toy_white_noise:
  "fst (random_feature_matrix toy_random 1 2 (WStr ''white noise'') (Some 0) w)
   = Inr [[- 2], [- 1]]"
  by (simp add: random_feature_matrix_def bind_res_def np_random_seed_def randn_def
      toy_random_def transpose_mat_def ncols_def numeral_2_eq_2 upt_conv_Cons)

lemma toy_unimodal_value:
  "fst (random_feature_matrix toy_random (Suc 0) 2 (WStr ''unimodal'') (Some 0) w)
   = Inr [[3], [exp (- (25 / 2)) * 3]]"
  by (simp add: random_feature_matrix_def bind_res_def np_random_seed_def unimodal_def
      uniform_def randint_def toy_random_def gaussian_def transpose_mat_def ncols_def
      upt_conv_Cons numeral_2_eq_2 power2_eq_square)

lemma dft_2: "dft 2 = [[1, 1], [1, - 1]]"
proof -
  have "cis (- pi) = - 1" using cis_cnj [of pi] by simp
  then show ?thesis by (simp add: dft_def upt_conv_Cons numeral_2_eq_2)
qed

lemma toy_classical_value:
  "classical_weights toy_random (Suc 0) 2 (Some 1) w = (Inr [[0, - 2]], w\<lparr>rng := 5\<rparr>)"
proof -
  have d: "draws_mat (next_complex toy_random) 1 2 (nat 1) = ([[Complex (- 1) 0, Complex 1 2]], 5)"
    by (simp add: next_complex_def toy_random_def numeral_2_eq_2)
  have r: "dot_dft_real 2 [[Complex (- 1) 0, Complex 1 2]] = [[0, - 2]]"
    by (simp add: dot_dft_real_def dft_2 upt_conv_Cons)
  have n: "normalize_rows [[0, - 2]] = [[0, - 2]]"
    by (simp add: normalize_rows_def np_std_def mean_def)
  show ?thesis
    using d by (simp add: classical_weights_def bind_res_def np_random_seed_def r n toy_random_def)
qed

lemma toy_haltere_value:
  "haltere_inspired_weights toy_random (Suc 0) 2 1 2 (Some 1) w = (Inr [[- 1, 1]], w\<lparr>rng := 3\<rparr>)"
proof -
  have d: "draws_mat (next_complex toy_random) 1 1 (nat 1) = ([[Complex (- 1) 0]], 3)"
    by (simp add: next_complex_def toy_random_def)
  have r: "dot_dft_real 2 [[0, Complex (- 1) 0]] = [[- 1, 1]]"
    by (simp add: dot_dft_real_def dft_2 upt_conv_Cons)
  have n: "normalize_rows [[- 1, 1]] = [[- 1, 1]]"
    by (simp add: normalize_rows_def np_std_def mean_def)
  show ?thesis
    using d
    by (simp add: haltere_inspired_weights_def bind_res_def np_random_seed_def r n toy_random_def
        slice_bound_def Let_def)
qed
section \<open>The methods of the two classes\<close>

lemma legacy_fit_mismatch:
  "length X \<noteq> length y \<Longrightarrow> legacy_fit lib ops self X y w = (Inl ValueError, self, w)"
  by (simp add: legacy_fit_def)

lemma fit_transform_sets_W:
  assumes "weight_fun self (width self) (ncols X) (case kwargs self of None \<Rightarrow> [] | Some kw \<Rightarrow> kw)
             (random_state self) w = (Inr W, w1)"
  shows "W_attr (fst (snd (fit_transform self X w))) = Some W
    \<and> b_attr (fst (snd (fit_transform self X w))) = Some (bias self)
    \<and> snd (snd (fit_transform self X w)) = w1"
  using assms
  by (cases "kwargs self") (simp_all add: fit_transform_def Let_def split: sum.splits)

lemma fit_keeps_W:
  "W_attr (fst (snd (fit ops self X y w))) = W_attr (fst (snd (fit_transform self X w)))
   \<and> b_attr (fst (snd (fit ops self X y w))) = b_attr (fst (snd (fit_transform self X w)))
   \<and> snd (snd (fit ops self X y w)) = snd (snd (fit_transform self X w))"
  by (cases "fit_transform self X w")
    (simp add: fit_def Let_def split: sum.splits option.splits prod.splits)

lemma fit_transform_alt:
  "fit_transform self X w =
     (case weight_fun self (width self) (ncols X) (case kwargs self of None \<Rightarrow> [] | Some kw \<Rightarrow> kw)
             (random_state self) w of
        (Inl e, w1) \<Rightarrow> (Inl e, self, w1)
      | (Inr W, w1) \<Rightarrow>
          (case computed_feature_map (nonlinearity self) W (bias self) X of
             Inl e \<Rightarrow> (Inl e, self\<lparr>W_attr := Some W, b_attr := Some (bias self)\<rparr>, w1)
           | Inr H \<Rightarrow>
               (Inr (), self\<lparr>W_attr := Some W, b_attr := Some (bias self), H_attr := Some H\<rparr>,
                w1)))"
  by (cases "kwargs self")
    (simp_all add: fit_transform_def Let_def computed_feature_map_def split: sum.splits prod.splits)

lemma fit_transform_success:
  assumes "fit_transform self X w = (Inr (), self', w')"
  shows "\<exists>W H. W_attr self' = Some W \<and> b_attr self' = Some (bias self) \<and> H_attr self' = Some H
           \<and> nonlinearity self' = nonlinearity self
           \<and> computed_feature_map (nonlinearity self) W (bias self) X = Inr H"
proof -
  obtain r w1 where wf: "weight_fun self (width self) (ncols X)
      (case kwargs self of None \<Rightarrow> [] | Some kw \<Rightarrow> kw) (random_state self) w = (r, w1)"
    by (cases "weight_fun self (width self) (ncols X)
      (case kwargs self of None \<Rightarrow> [] | Some kw \<Rightarrow> kw) (random_state self) w")
  show ?thesis
  proof (cases r)
    case (Inl e)
    then show ?thesis using assms wf by (simp add: fit_transform_alt)
  next
    case (Inr W)
    show ?thesis
    proof (cases "computed_feature_map (nonlinearity self) W (bias self) X")
      case (Inl e)
      then show ?thesis using assms wf Inr by (simp add: fit_transform_alt)
    next
      case H: (Inr H)
      then have "self' = self\<lparr>W_attr := Some W, b_attr := Some (bias self), H_attr := Some H\<rparr>"
        using assms wf Inr by (simp add: fit_transform_alt)
      then show ?thesis using H by simp
    qed
  qed
qed

lemma transform_formula:
  "W_attr self = Some W \<Longrightarrow> b_attr self = Some b \<Longrightarrow>
     transform self X = computed_feature_map (nonlinearity self) W b X"
  by (simp add: transform_def computed_feature_map_def)

lemma fit_success:
  assumes "fit ops self X y w = (Inr (), self', w')"
  shows "\<exists>W H. W_attr self' = Some W \<and> b_attr self' = Some (bias self) \<and> H_attr self' = Some H
           \<and> nonlinearity self' = nonlinearity self
           \<and> computed_feature_map (nonlinearity self) W (bias self) X = Inr H"
proof -
  obtain r s1 w1 where ft: "fit_transform self X w = (r, s1, w1)"
    by (cases "fit_transform self X w")
  have r: "r = Inr ()" using assms ft by (cases r) (simp_all add: fit_def)
  obtain W H where s1: "W_attr s1 = Some W" "b_attr s1 = Some (bias self)" "H_attr s1 = Some H"
      "nonlinearity s1 = nonlinearity self"
      "computed_feature_map (nonlinearity self) W (bias self) X = Inr H"
    using fit_transform_success [of self X w s1 w1] ft r by auto
  have "W_attr self' = W_attr s1 \<and> b_attr self' = b_attr s1 \<and> H_attr self' = H_attr s1
      \<and> nonlinearity self' = nonlinearity s1"
    using assms ft r s1(3)
    by (auto simp: fit_def Let_def split: sum.splits option.splits)
  then show ?thesis using s1 by simp
qed

lemma legacy_fit_success:
  assumes "legacy_fit lib ops self X y w = (Inr (), self', w')"
  shows "\<exists>W P c c' sd. legacy_W_attr self' = Some W \<and> matmul X W = Inr P
      \<and> legacy_clf self' = ClfInstance c' \<and> legacy_seed self' = Some sd
      \<and> legacy_nonlinearity self' = legacy_nonlinearity self
      \<and> clf_fit ops c (legacy_nonlinearity self P) y = Inr c'"
  using assms
  by (auto simp: legacy_fit_def Let_def split: if_splits option.splits prod.splits sum.splits
      clf_slot.splits)

lemma legacy_fit_success2:
  assumes "legacy_fit lib ops self X y w = (Inr (), self', w')"
  shows "\<exists>W P c c'. legacy_W_attr self' = Some W \<and> matmul X W = Inr P
      \<and> legacy_clf self' = ClfInstance c'
      \<and> legacy_nonlinearity self' = legacy_nonlinearity self
      \<and> clf_fit ops c (legacy_nonlinearity self P) y = Inr c'
      \<and> (case legacy_clf self of
            ClfNone \<Rightarrow> \<exists>sd. c = LinearSVC ops sd
          | ClfClass mk \<Rightarrow> mk (legacy_clf_args self) = Inr c
          | ClfInstance _ \<Rightarrow> False)"
  using assms
  by (auto simp: legacy_fit_def Let_def split: if_splits option.splits prod.splits sum.splits
      clf_slot.splits) blast+

lemma legacy_refit:
  assumes "legacy_fit lib ops self X y w = (Inr (), self', w')" "length X2 = length y2"
  shows "legacy_fit lib ops self' X2 y2 w2 = (Inl TypeError, self', w2)"
proof -
  obtain c' sd where "legacy_clf self' = ClfInstance c'" "legacy_seed self' = Some sd"
    using legacy_fit_success [OF assms(1)] by blast
  then show ?thesis using assms(2) by (simp add: legacy_fit_def)
qed

lemma fit_refit:
  "fit ops (self\<lparr>W_attr := a, b_attr := b0, H_attr := h, coef_attr := c0, intercept_attr := i0\<rparr>)
      X y w = (Inr (), self', w')
   \<longleftrightarrow> fit ops self X y w = (Inr (), self', w')"
  by (auto simp: fit_def fit_transform_alt Let_def split: sum.splits prod.splits option.splits)

text \<open>The two adapters fitted on one sample.\<close>

lemma toy_features: "computed_feature_map (relu 0) [[0, - 2]] (BScalar 0) [[1, - 2]] = Inr [[4]]"
  by (simp add: computed_feature_map_def matmul_def transpose_mat_def ncols_def add_bias_def relu_def
      upt_conv_Cons numeral_2_eq_2)

lemma toy_fit_transform:
  "fit_transform toy_adapter [[1, - 2]] w
   = (Inr (), toy_adapter\<lparr>W_attr := Some [[0, - 2]], b_attr := Some (BScalar 0),
                           H_attr := Some [[4]]\<rparr>, w\<lparr>rng := 5\<rparr>)"
proof -
  have n: "ncols [[1, - 2 :: real]] = 2" by (simp add: ncols_def)
  show ?thesis
    using toy_features
    by (simp add: fit_transform_def toy_adapter_def RFClassifier_init_def classical_weight_fun_def
        toy_classical_value n computed_feature_map_def split: sum.splits)
qed

lemma toy_fit:
  "fit toy_classifier toy_adapter [[1, - 2]] [1] w
   = (Inr (), toy_adapter\<lparr>W_attr := Some [[0, - 2]], b_attr := Some (BScalar 0),
                           H_attr := Some [[4]], clf := Some ([[4]], [1]),
                           coef_attr := Some [[0]], intercept_attr := Some [0]\<rparr>,
      w\<lparr>rng := 5\<rparr>)"
  by (simp add: fit_def toy_fit_transform toy_classifier_def)

lemma toy_fit_mismatch:
  "fit toy_classifier toy_adapter [[1, - 2]] [] w
   = (Inl ValueError, toy_adapter\<lparr>W_attr := Some [[0, - 2]], b_attr := Some (BScalar 0),
                                  H_attr := Some [[4]]\<rparr>, w\<lparr>rng := 5\<rparr>)"
  by (simp add: fit_def toy_fit_transform toy_classifier_def)

lemma toy_white_noise_22:
  "random_feature_matrix toy_random 2 2 (WStr ''white noise'') (Some 7) w
   = (Inr [[0, 2], [1, - 2]], w\<lparr>rng := 11\<rparr>)"
  by (simp add: random_feature_matrix_def bind_res_def np_random_seed_def randn_def
      toy_random_def transpose_mat_def ncols_def numeral_2_eq_2 upt_conv_Cons)

lemma toy_legacy_fit:
  "legacy_fit toy_random toy_classifier toy_legacy_adapter [[1, 2]] [1] toy_world
   = (Inr (), toy_legacy_adapter\<lparr>legacy_clf := ClfInstance (Some ([[2, 0]], [1])),
                                  legacy_seed := Some 7, legacy_W_attr := Some [[0, 2], [1, - 2]],
                                  legacy_fitted := Some True\<rparr>,
      toy_world\<lparr>rng := 11\<rparr>)"
proof -
  have s: "next_below toy_random 1000 (rng toy_world) = (7, 8)"
    by (simp add: toy_random_def toy_world_def)
  have m: "matmul [[1, 2]] [[0, 2], [1, - 2]] = Inr [[2, - 2]]"
    by (simp add: matmul_def ncols_def upt_conv_Cons numeral_2_eq_2)
  have n: "ncols [[1, 2 :: real]] = 2" by (simp add: ncols_def)
  show ?thesis
    by (simp add: legacy_fit_def toy_legacy_adapter_def legacy_init_def s n
        toy_white_noise_22 m relu_def toy_classifier_def)
qed

subsection \<open>The program's feature map and the specification's\<close>

lemma length_transpose_mat: "length (transpose_mat W) = ncols W"
  by (simp add: transpose_mat_def)

lemma ncols_transpose_mat: "ncols W \<noteq> 0 \<Longrightarrow> ncols (transpose_mat W) = length W"
  by (simp add: transpose_mat_def ncols_def upt_conv_Cons split: list.splits)

lemma dotp_column:
  assumes "j < length W" "length (W ! j) = ncols W"
  shows "sum_list (map2 (\<lambda>a brow. a * brow ! j) x (transpose_mat W)) = dotp x (W ! j)"
proof -
  have "W ! j = map (\<lambda>i. W ! j ! i) [0..<ncols W]"
    using assms(2) map_nth [of "W ! j"] by simp
  then have "dotp x (W ! j) = sum_list (map2 (*) x (map (\<lambda>i. W ! j ! i) [0..<ncols W]))"
    by (simp add: dotp_def)
  also have "\<dots> = sum_list (map (\<lambda>(a, i). a * (W ! j ! i)) (zip x [0..<ncols W]))"
    by (simp add: zip_map2 split_def comp_def)
  also have "\<dots> = sum_list (map2 (\<lambda>a brow. a * brow ! j) x (transpose_mat W))"
    using assms(1) by (simp add: transpose_mat_def zip_map2 split_def comp_def)
  finally show ?thesis by simp
qed

lemma matmul_transpose:
  assumes "ncols W \<noteq> 0" "list_all (\<lambda>r. length r = ncols W) W" "ncols X = ncols W"
  shows "matmul X (transpose_mat W) = Inr (map (\<lambda>x. map (\<lambda>j. dotp x (W ! j)) [0..<length W]) X)"
proof -
  have rows: "\<And>j. j < length W \<Longrightarrow> length (W ! j) = ncols W"
    using assms(2) by (simp add: list_all_length)
  show ?thesis
    using assms(1,3) rows
    by (simp add: matmul_def length_transpose_mat ncols_transpose_mat dotp_column)
qed

lemma matmul_stored:
  assumes "ncols X = length Wt"
  shows "matmul X Wt
    = Inr (map (\<lambda>x. map (\<lambda>j. dotp x (transpose_mat Wt ! j)) [0..<length (transpose_mat Wt)]) X)"
  using assms
  by (simp add: matmul_def length_transpose_mat transpose_mat_def dotp_def zip_map2 split_def
      comp_def)

lemma ncols_tabulated: "X \<noteq> [] \<Longrightarrow> ncols (map (\<lambda>x. map (f x) [0..<n]) X) = n"
  by (cases X) (simp_all add: ncols_def)

lemma add_bias_tabulated:
  assumes "X \<noteq> []" "bias_fits b W"
  shows "add_bias (map (\<lambda>x. map (f x) [0..<length W]) X) b
    = Inr (map (\<lambda>x. map (\<lambda>j. f x j + bias_at b j) [0..<length W]) X)"
proof (cases b)
  case (BScalar c)
  then show ?thesis by (simp add: add_bias_def bias_at_def)
next
  case (BVec v)
  have nc: "ncols (map (\<lambda>x. map (f x) [0..<length W]) X) = length W"
    using assms(1) by (rule ncols_tabulated)
  show ?thesis
  proof (cases "length v = length W")
    case True
    have "map2 (+) (map (f x) [0..<length W]) v
        = map (\<lambda>j. f x j + (if length v = 1 then hd v else v ! j)) [0..<length W]" for x
    proof (rule nth_equalityI)
      show "length (map2 (+) (map (f x) [0..<length W]) v)
          = length (map (\<lambda>j. f x j + (if length v = 1 then hd v else v ! j)) [0..<length W])"
        using True by simp
    next
      fix i assume "i < length (map2 (+) (map (f x) [0..<length W]) v)"
      then have i: "i < length W" by simp
      show "map2 (+) (map (f x) [0..<length W]) v ! i
          = map (\<lambda>j. f x j + (if length v = 1 then hd v else v ! j)) [0..<length W] ! i"
        using i True by (cases v) auto
    qed
    then show ?thesis using BVec True nc by (simp add: add_bias_def bias_at_def)
  next
    case False
    then have "length v = 1" using assms(2) BVec by (simp add: bias_fits_def)
    then show ?thesis using BVec False nc by (simp add: add_bias_def bias_at_def)
  qed
qed

lemma feature_input_nonempty: "feature_input_ok W X \<Longrightarrow> X \<noteq> []"
  by (auto simp: feature_input_ok_def ncols_def)

lemma computed_feature_map_spec:
  assumes "feature_input_ok W X" "bias_fits b W"
  shows "computed_feature_map nl W b X = Inr (spec_feature_map nl W b X)"
  using assms matmul_transpose [of W X] add_bias_tabulated [OF feature_input_nonempty [OF assms(1)] assms(2)]
  by (simp add: computed_feature_map_def spec_feature_map_def feature_input_ok_def)

lemma legacy_transform_spec:
  assumes "legacy_W_attr self = Some Wt" "ncols X = length Wt"
  shows "legacy_transform self X
    = Inr (spec_feature_map (legacy_nonlinearity self) (transpose_mat Wt) (BScalar 0) X)"
  using assms matmul_stored [of X Wt]
  by (simp add: legacy_transform_def spec_feature_map_def bias_at_def)

lemma legacy_predict_transform:
  assumes "legacy_transform self X = Inr H" "legacy_clf self = ClfInstance c"
  shows "legacy_predict ops self X = clf_predict ops c H"
  using assms
  by (auto simp: legacy_transform_def legacy_predict_def split: option.splits sum.splits)

lemma legacy_score_transform:
  assumes "legacy_transform self X = Inr H" "legacy_clf self = ClfInstance c"
  shows "legacy_score ops self X y = clf_score ops c H y"
  using assms
  by (auto simp: legacy_transform_def legacy_score_def split: option.splits sum.splits)

lemma legacy_transform_error:
  assumes "legacy_transform self X = Inl e"
  shows "legacy_predict ops self X = Inl e \<and> legacy_score ops self X y = Inl e"
  using assms
  by (auto simp: legacy_transform_def legacy_predict_def legacy_score_def
      split: option.splits sum.splits)

lemma score_transform:
  assumes "transform self X = Inr H" "coef_attr self = Some cf" "intercept_attr self = Some ic"
  shows "score ops self X y = clf_score ops (clf self) H y"
  using assms by (simp add: score_def)

lemma score_transform_error:
  assumes "transform self X = Inl e"
  shows "score ops self X y = Inl e"
  using assms by (simp add: score_def)

lemma legacy_fit_transform:
  assumes "legacy_fit lib ops self X y w = (Inr (), self', w')"
  shows "\<exists>Wt H c c'. legacy_W_attr self' = Some Wt \<and> legacy_transform self' X = Inr H
      \<and> legacy_nonlinearity self' = legacy_nonlinearity self
      \<and> legacy_clf self' = ClfInstance c' \<and> clf_fit ops c H y = Inr c'"
proof -
  obtain W P c c' where a: "legacy_W_attr self' = Some W" "matmul X W = Inr P"
      "legacy_clf self' = ClfInstance c'" "legacy_nonlinearity self' = legacy_nonlinearity self"
      "clf_fit ops c (legacy_nonlinearity self P) y = Inr c'"
    using legacy_fit_success2 [OF assms] by blast
  then have "legacy_transform self' X = Inr (legacy_nonlinearity self P)"
    by (simp add: legacy_transform_def)
  then show ?thesis using a by blast
qed

subsection \<open>A fit on two classes, with a bias\<close>

lemma fit_transform_keeps_clf:
  assumes "fit_transform self X w = (r, self', w')"
  shows "clf self' = clf self"
  using assms
  by (auto simp: fit_transform_alt split: sum.splits prod.splits)

lemma fit_hands_H:
  assumes "fit ops self X y w = (Inr (), self', w')"
  shows "\<exists>H. H_attr self' = Some H \<and> clf_fit ops (clf self) H y = Inr (clf self')"
proof -
  obtain r s1 w1 where ft: "fit_transform self X w = (r, s1, w1)"
    by (cases "fit_transform self X w")
  have c: "clf s1 = clf self" using ft by (rule fit_transform_keeps_clf)
  show ?thesis
    using assms ft c
    by (auto simp: fit_def Let_def split: sum.splits option.splits)
qed

lemma toy_biased_features:
  "spec_feature_map (relu 0) [[0, - 2]] (BScalar 3) [[1, - 2], [2, 3]] = [[7], [0]]"
  by (simp add: spec_feature_map_def dotp_def bias_at_def relu_def)

lemma toy_vector_bias_features:
  "spec_feature_map (relu 0) [[0, - 2], [1, 1]] (BVec [3, - 5]) [[1, - 2]] = [[7, 0]]"
  by (simp add: spec_feature_map_def dotp_def bias_at_def relu_def upt_conv_Cons numeral_2_eq_2)

lemma toy_biased_fit_transform:
  "fit_transform toy_biased_adapter [[1, - 2], [2, 3]] w
   = (Inr (), toy_biased_adapter\<lparr>W_attr := Some [[0, - 2]], b_attr := Some (BScalar 3),
                                  H_attr := Some [[7], [0]]\<rparr>, w\<lparr>rng := 5\<rparr>)"
proof -
  have n: "ncols [[1, - 2], [2, 3 :: real]] = 2" by (simp add: ncols_def)
  have m: "matmul [[1, - 2], [2, 3]] (transpose_mat [[0, - 2]]) = Inr [[4], [- 6]]"
    by (simp add: matmul_def transpose_mat_def ncols_def upt_conv_Cons numeral_2_eq_2)
  have a: "add_bias [[4], [- 6]] (BScalar 3) = Inr [[7], [- 3]]"
    by (simp add: add_bias_def)
  show ?thesis
    by (simp add: fit_transform_def toy_biased_adapter_def RFClassifier_init_def
        classical_weight_fun_def toy_classical_value n m a relu_def)
qed

lemma toy_biased_fit:
  "fit toy_svc toy_biased_adapter [[1, - 2], [2, 3]] [1, 0] w
   = (Inr (), toy_biased_adapter\<lparr>W_attr := Some [[0, - 2]], b_attr := Some (BScalar 3),
                                  H_attr := Some [[7], [0]], clf := Some ([[7], [0]], [1, 0]),
                                  coef_attr := Some [[0]], intercept_attr := Some [0]\<rparr>,
      w\<lparr>rng := 5\<rparr>)"
  by (simp add: fit_def toy_biased_fit_transform toy_svc_def)

lemma toy_legacy_fit_two_classes:
  "legacy_fit toy_random toy_svc toy_legacy_adapter [[1, 2], [3, 4]] [0, 1] toy_world
   = (Inr (), toy_legacy_adapter\<lparr>legacy_clf := ClfInstance (Some ([[2, 0], [4, 0]], [0, 1])),
                                  legacy_seed := Some 7, legacy_W_attr := Some [[0, 2], [1, - 2]],
                                  legacy_fitted := Some True\<rparr>,
      toy_world\<lparr>rng := 11\<rparr>)"
proof -
  have s: "next_below toy_random 1000 (rng toy_world) = (7, 8)"
    by (simp add: toy_random_def toy_world_def)
  have m: "matmul [[1, 2], [3, 4]] [[0, 2], [1, - 2]] = Inr [[2, - 2], [4, - 2]]"
    by (simp add: matmul_def ncols_def upt_conv_Cons numeral_2_eq_2)
  have n: "ncols [[1, 2], [3, 4 :: real]] = 2" by (simp add: ncols_def)
  show ?thesis
    by (simp add: legacy_fit_def toy_legacy_adapter_def legacy_init_def s n
        toy_white_noise_22 m relu_def toy_svc_def)
qed

lemma toy_legacy_fit_one_class:
  "fst (legacy_fit toy_random toy_svc toy_legacy_adapter [[1, 2]] [1] toy_world) = Inl ValueError"
proof -
  have s: "next_below toy_random 1000 (rng toy_world) = (7, 8)"
    by (simp add: toy_random_def toy_world_def)
  have m: "matmul [[1, 2]] [[0, 2], [1, - 2]] = Inr [[2, - 2]]"
    by (simp add: matmul_def ncols_def upt_conv_Cons numeral_2_eq_2)
  have n: "ncols [[1, 2 :: real]] = 2" by (simp add: ncols_def)
  show ?thesis
    by (simp add: legacy_fit_def toy_legacy_adapter_def legacy_init_def s n
        toy_white_noise_22 m relu_def toy_svc_def)
qed

lemma toy_legacy_features:
  "spec_feature_map (relu 0) (transpose_mat [[0, 2], [1, - 2]]) (BScalar 0) [[1, 2], [3, 4]]
   = [[2, 0], [4, 0]]"
  by (simp add: spec_feature_map_def transpose_mat_def ncols_def dotp_def bias_at_def relu_def
      upt_conv_Cons numeral_2_eq_2)

lemma toy_stored_features:
  "spec_feature_map (relu 0) [[0, 2], [1, - 2]] (BScalar 0) [[1, 2], [3, 4]] = [[4, 0], [8, 0]]"
  by (simp add: spec_feature_map_def dotp_def bias_at_def relu_def upt_conv_Cons numeral_2_eq_2)

lemma toy_legacy_transform_two:
  "legacy_transform
     (toy_legacy_adapter\<lparr>legacy_clf := ClfInstance (Some ([[2, 0], [4, 0]], [0, 1])),
                         legacy_seed := Some 7, legacy_W_attr := Some [[0, 2], [1, - 2]],
                         legacy_fitted := Some True\<rparr>) [[1, 2], [3, 4]] = Inr [[2, 0], [4, 0]]"
  by (simp add: legacy_transform_def toy_legacy_adapter_def legacy_init_def matmul_def ncols_def
      relu_def upt_conv_Cons numeral_2_eq_2)

section \<open>The identity generator\<close>

text \<open>
  Claim C8. With \<^verbatim>\<open>weights=None\<close> the generator of the first module returns the
  \<open>n_features \<times> n_features\<close> identity matrix: \<^verbatim>\<open>np.eye(N, N)\<close> is its own transpose. This
  holds for every width \<open>M\<close>, so in particular for \<open>M = N\<close>, whenever the seed is accepted
  by \<^verbatim>\<open>np.random.seed\<close>: a given seed lies in \<open>[0, 2^32)\<close>, and without a seed the
  generator draws one below 1000.
\<close>

theorem identity_generator:
  assumes "case rand_seed of
             None \<Rightarrow> \<forall>g. fst (next_below lib 1000 g) < 1000
           | Some k \<Rightarrow> 0 \<le> k \<and> k < 2 ^ 32"
  shows "fst (random_feature_matrix lib M N WNone rand_seed w) = Inr (eye N)"
proof (cases rand_seed)
  case None
  obtain k g where kg: "next_below lib 1000 (rng w) = (k, g)"
    by (cases "next_below lib 1000 (rng w)")
  from assms None have "fst (next_below lib 1000 (rng w)) < 1000" by simp
  with kg have "k < 1000" by simp
  then have "int k < 2 ^ 32" by simp
  then show ?thesis using None kg
    by (simp add: random_feature_matrix_def bind_res_def np_random_seed_def transpose_eye)
next
  case (Some k)
  then show ?thesis using assms
    by (simp add: random_feature_matrix_def bind_res_def np_random_seed_def transpose_eye)
qed

theorem identity_generator_witness:
  "fst (random_feature_matrix toy_random 2 2 WNone (Some 42) toy_world) = Inr [[1, 0], [0, 1]]
   \<and> fst (random_feature_matrix toy_random 2 2 WNone None toy_world) = Inr [[1, 0], [0, 1]]"
  using identity_generator [where rand_seed = "Some 42" and lib = toy_random and M = 2 and N = 2
      and w = toy_world]
    identity_generator [where rand_seed = None and lib = toy_random and M = 2 and N = 2
      and w = toy_world]
  by (simp add: eye_def toy_random_def upt_conv_Cons)

section \<open>Determinism under a fixed seed\<close>

text \<open>
  Claim C5. Called with an integer seed \<open>k\<close>, every generator returns the same result (the same
  matrix, or the same error) from any two process states \<open>w\<close> and \<open>w'\<close>, whatever the global
  generator and the entropy source held before: the spectral, the band-limited and the
  receptive-field generator of the second module, and \<^verbatim>\<open>random_feature_matrix\<close> of the first
  with a string (\<^verbatim>\<open>'white noise'\<close>, \<^verbatim>\<open>'unimodal'\<close>) or \<^verbatim>\<open>None\<close> as weights.
\<close>

theorem generators_deterministic:
  "fst (classical_weights lib M N (Some k) w) = fst (classical_weights lib M N (Some k) w')
   \<and> fst (haltere_inspired_weights lib M N lowcut highcut (Some k) w)
       = fst (haltere_inspired_weights lib M N lowcut highcut (Some k) w')
   \<and> fst (V1_inspired_weights lib M N t l (Some k) w)
       = fst (V1_inspired_weights lib M N t l (Some k) w')
   \<and> fst (random_feature_matrix lib M N (WStr s) (Some k) w)
       = fst (random_feature_matrix lib M N (WStr s) (Some k) w')
   \<and> fst (random_feature_matrix lib M N WNone (Some k) w)
       = fst (random_feature_matrix lib M N WNone (Some k) w')"
  using V1_inspired_weights_Some [of lib M N t l k w w']
    random_feature_matrix_WStr [of lib M N s k w w']
    random_feature_matrix_WNone [of lib M N k w w']
  by (simp add: classical_weights_Some haltere_Some)

section \<open>Equal centers give equal rows\<close>

text \<open>
  Claim C10. With an integer \<^verbatim>\<open>random_state\<close> \<open>k\<close>, \<^verbatim>\<open>V1_inspired_weights_for_center\<close> reseeds
  the global generator with \<open>k\<close> before it draws the noise of a row, so every row comes from
  the same draw and depends on its center alone: row \<open>i\<close> is what
  \<^verbatim>\<open>V1_inspired_weights_for_center\<close> returns for the \<open>i\<close>-th center from any process state
  \<open>w0\<close>, and two rows whose centers are equal are the same vector.
\<close>

theorem equal_centers_equal_rows:
  assumes "fst (V1_centers lib M N (Some k) w) = Inr centers"
    and "fst (V1_inspired_weights lib M N t l (Some k) w) = Inr W"
    and "i < M" and "j < M" and "centers ! i = centers ! j"
  shows "W ! i = W ! j
    \<and> fst (V1_inspired_weights_for_center lib N t l
          (real (fst (centers ! i)), real (snd (centers ! i))) (Some k) w0) = Inr (W ! i)"
proof -
  obtain w1 where c: "V1_centers lib M N (Some k) w = (Inr centers, w1)"
    using assms(1) by (cases "V1_centers lib M N (Some k) w") simp
  have len: "length centers = M" using V1_centers_length [OF assms(1)] .
  have rows: "fst (V1_rows lib N t l (Some k) centers [] w1) = Inr W"
    using assms(2) c by (simp add: V1_inspired_weights_def bind_res_def)
  let ?f = "\<lambda>m. fst (V1_inspired_weights_for_center lib N t l
                  (real (fst m), real (snd m)) (Some k) w0)"
  have W: "map ?f centers = map Inr W" using V1_rows_value [OF rows, of w0] by simp
  have "length (map ?f centers) = length (map Inr W :: (error + vec) list)"
    using W by simp
  then have lenW: "length W = M" using len by simp
  have nth: "?f (centers ! n) = Inr (W ! n)" if "n < M" for n
  proof -
    have "map ?f centers ! n = (map Inr W :: (error + vec) list) ! n" using W by simp
    then show ?thesis using that len lenW by simp
  qed
  have "Inr (W ! i) = ?f (centers ! i)" using nth [OF assms(3)] by simp
  also have "\<dots> = ?f (centers ! j)" using assms(5) by simp
  also have "\<dots> = Inr (W ! j)" using nth [OF assms(4)] by simp
  finally have "W ! i = W ! j" by simp
  then show ?thesis using nth [OF assms(3)] by simp
qed

theorem equal_centers_equal_rows_witness:
  "fst (V1_centers toy_random 2 1 (Some 0) toy_world) = Inr [(0, 0), (0, 0)]
   \<and> fst (V1_inspired_weights toy_random 2 1 1 1 (Some 0) toy_world)
       = Inr [[sqrt (1000001 / 100000) * (- 2)], [sqrt (1000001 / 100000) * (- 2)]]
   \<and> [[sqrt (1000001 / 100000) * (- 2)], [sqrt (1000001 / 100000) * (- 2)]] ! 0
       = [[sqrt (1000001 / 100000) * (- 2)], [sqrt (1000001 / 100000) * (- 2 :: real)]] ! 1"
proof -
  have c: "fst (V1_centers toy_random 2 1 (Some 0) toy_world) = Inr [(0, 0), (0, 0)]"
    by (simp add: toy_centers)
  have v: "fst (V1_inspired_weights toy_random 2 1 1 1 (Some 0) toy_world)
       = Inr [[sqrt (1000001 / 100000) * (- 2)], [sqrt (1000001 / 100000) * (- 2)]]"
    using toy_V1 [of 1 1 toy_world] by simp
  show ?thesis
    using equal_centers_equal_rows [OF c v, of 0 1 toy_world] c v by simp
qed

section \<open>Feature counts that are not perfect squares\<close>

text \<open>
  Claim C9, as the code has it. For a feature count \<open>N\<close> that is not a perfect square the
  receptive-field generator returns nothing: \<^verbatim>\<open>np.arange(np.sqrt(N))\<close> has \<open>\<lceil>sqrt N\<rceil>\<close> entries,
  more than the \<open>\<lfloor>sqrt N\<rfloor>\<close> that bound the centers, so the kernel has \<open>\<lceil>sqrt N\<rceil>\<^sup>2 \<noteq> N\<close> rows
  and \<^verbatim>\<open>K += 1e-5 * np.eye(N)\<close> raises a \<^verbatim>\<open>ValueError\<close>, in \<^verbatim>\<open>V1_inspired_kernel_matrix\<close> and
  so in \<^verbatim>\<open>V1_inspired_weights\<close> for every width \<open>M > 0\<close> and every seed.
\<close>

theorem nonsquare_features_rejected:
  assumes "\<nexists>k. N = k * k" and "0 < M"
  shows "V1_inspired_kernel_matrix N t l m = Inl ValueError
    \<and> fst (V1_inspired_weights lib M N t l rs w) = Inl ValueError
    \<and> nat \<lfloor>sqrt (real N)\<rfloor> < nat \<lceil>sqrt (real N)\<rceil>"
  using kernel_nonsquare [OF assms(1)] V1_weights_nonsquare [OF assms]
    floor_lt_ceiling_nonsquare [OF assms(1)]
  by simp

theorem nonsquare_features_rejected_witness:
  "(\<nexists>k. (2::nat) = k * k)
   \<and> V1_inspired_kernel_matrix 2 1 1 (0, 0) = Inl ValueError
   \<and> fst (V1_inspired_weights toy_random 3 2 1 1 None toy_world) = Inl ValueError
   \<and> nat \<lfloor>sqrt (real 2)\<rfloor> < nat \<lceil>sqrt (real 2)\<rceil>"
  using nonsquare_features_rejected [OF two_nonsquare, of 3 1 1 "(0, 0)" toy_random None toy_world]
    two_nonsquare
  by simp

text \<open>
  The claim as stated, that such a feature count is truncated to the floor of its square root
  and a result is still returned, fails at \<open>N = 2\<close>: the grid side is \<open>\<lceil>sqrt 2\<rceil> = 2\<close>, not
  \<open>\<lfloor>sqrt 2\<rfloor> = 1\<close>, and the call ends in a \<^verbatim>\<open>ValueError\<close>.
\<close>

theorem nonsquare_features_counterexample:
  "fst (V1_inspired_weights toy_random 1 2 1 1 (Some 0) toy_world) = Inl ValueError
   \<and> nat \<lfloor>sqrt (real 2)\<rfloor> = 1 \<and> nat \<lceil>sqrt (real 2)\<rceil> = 2"
  using V1_weights_nonsquare [OF two_nonsquare, of 1 toy_random 1 1 "Some 0" toy_world]
    sqrt2_bounds
  by simp

section \<open>The shape of the weight matrix\<close>

text \<open>
  Claim C1, as the code has it. For a width \<open>M > 0\<close>, every matrix that a generator of the
  second module returns (\<^verbatim>\<open>classical_weights\<close>, \<^verbatim>\<open>haltere_inspired_weights\<close>,
  \<^verbatim>\<open>V1_inspired_weights\<close>) has shape \<open>(M, N)\<close>. \<^verbatim>\<open>random_feature_matrix\<close> of the first module
  returns \<^verbatim>\<open>J.T\<close>, the transpose: shape \<open>(N, M)\<close> for \<^verbatim>\<open>'white noise'\<close> and \<^verbatim>\<open>'unimodal'\<close>, and
  \<open>(N, N)\<close> for \<^verbatim>\<open>None\<close>, whatever the width. Its caller multiplies \<^verbatim>\<open>X @ self.W_\<close>, which
  needs the \<open>N\<close> rows.
\<close>

theorem generator_shapes:
  assumes "0 < M"
  shows "(fst (classical_weights lib M N rs w) = Inr W \<longrightarrow> has_shape W M N)
    \<and> (fst (haltere_inspired_weights lib M N lowcut highcut rs w) = Inr W \<longrightarrow> has_shape W M N)
    \<and> (fst (V1_inspired_weights lib M N t l rs w) = Inr W \<longrightarrow> has_shape W M N)
    \<and> (fst (random_feature_matrix lib M N (WStr ''white noise'') rs w) = Inr W
        \<longrightarrow> has_shape W N M)
    \<and> (fst (random_feature_matrix lib M N (WStr ''unimodal'') rs w) = Inr W
        \<longrightarrow> has_shape W N M)
    \<and> (fst (random_feature_matrix lib M N WNone rs w) = Inr W \<longrightarrow> has_shape W N N)"
  using assms
  by (auto intro: classical_weights_shape haltere_shape V1_inspired_weights_shape
      white_noise_shape unimodal_weights_shape identity_weights_shape)

theorem generator_shapes_witness:
  "fst (classical_weights toy_random 1 2 (Some 1) toy_world) = Inr [[0, - 2]]
   \<and> has_shape [[0, - 2 :: real]] 1 2
   \<and> fst (haltere_inspired_weights toy_random 1 2 1 2 (Some 1) toy_world) = Inr [[- 1, 1]]
   \<and> has_shape [[- 1, 1 :: real]] 1 2
   \<and> fst (V1_inspired_weights toy_random 2 1 1 1 (Some 0) toy_world)
       = Inr [[sqrt (1000001 / 100000) * (- 2)], [sqrt (1000001 / 100000) * (- 2)]]
   \<and> has_shape [[sqrt (1000001 / 100000) * (- 2)], [sqrt (1000001 / 100000) * (- 2)]] 2 1
   \<and> fst (random_feature_matrix toy_random 1 2 (WStr ''white noise'') (Some 0) toy_world)
       = Inr [[- 2], [- 1]]
   \<and> has_shape [[- 2], [- 1 :: real]] 2 1
   \<and> fst (random_feature_matrix toy_random 1 2 (WStr ''unimodal'') (Some 0) toy_world)
       = Inr [[3], [exp (- (25 / 2)) * 3]]
   \<and> has_shape [[3], [exp (- (25 / 2)) * 3 :: real]] 2 1
   \<and> fst (random_feature_matrix toy_random 1 2 WNone (Some 0) toy_world) = Inr [[1, 0], [0, 1]]
   \<and> has_shape [[1, 0], [0, 1 :: real]] 2 2"
proof -
  have c: "fst (classical_weights toy_random 1 2 (Some 1) toy_world) = Inr [[0, - 2]]"
    by (simp add: toy_classical_value)
  have h: "fst (haltere_inspired_weights toy_random 1 2 1 2 (Some 1) toy_world) = Inr [[- 1, 1]]"
    by (simp add: toy_haltere_value)
  have u: "fst (random_feature_matrix toy_random 1 2 (WStr ''unimodal'') (Some 0) toy_world)
       = Inr [[3], [exp (- (25 / 2)) * 3]]"
    using toy_unimodal_value [of toy_world] by simp
  have v: "fst (V1_inspired_weights toy_random 2 1 1 1 (Some 0) toy_world)
       = Inr [[sqrt (1000001 / 100000) * (- 2)], [sqrt (1000001 / 100000) * (- 2)]]"
    using toy_V1 [of 1 1 toy_world] by simp
  have n: "fst (random_feature_matrix toy_random 1 2 (WStr ''white noise'') (Some 0) toy_world)
       = Inr [[- 2], [- 1]]"
    by (rule toy_white_noise)
  have i: "fst (random_feature_matrix toy_random 1 2 WNone (Some 0) toy_world)
       = Inr [[1, 0], [0, 1]]"
  proof -
    have "fst (random_feature_matrix toy_random 1 2 WNone (Some 0) toy_world) = Inr (eye 2)"
      by (simp add: random_feature_matrix_def bind_res_def np_random_seed_def transpose_eye)
    then show ?thesis by (simp add: eye_def upt_conv_Cons)
  qed
  have "has_shape [[0, - 2 :: real]] 1 2"
    using generator_shapes [where M = 1 and N = 2 and lib = toy_random and rs = "Some 1"
        and w = toy_world and W = "[[0, - 2]]"] c by simp
  moreover have "has_shape [[- 1, 1 :: real]] 1 2"
    using generator_shapes [where M = 1 and N = 2 and lib = toy_random and rs = "Some 1"
        and w = toy_world and W = "[[- 1, 1]]" and lowcut = 1 and highcut = 2] h by simp
  moreover have "has_shape [[sqrt (1000001 / 100000) * (- 2)], [sqrt (1000001 / 100000) * (- 2)]] 2 1"
    using generator_shapes [where M = 2 and N = 1 and lib = toy_random and rs = "Some 0"
        and w = toy_world and t = 1 and l = 1
        and W = "[[sqrt (1000001 / 100000) * (- 2)], [sqrt (1000001 / 100000) * (- 2)]]"] v
    by simp
  moreover have "has_shape [[- 2], [- 1 :: real]] 2 1"
    using generator_shapes [where M = 1 and N = 2 and lib = toy_random and rs = "Some 0"
        and w = toy_world and W = "[[- 2], [- 1]]"] n by simp
  moreover have "has_shape [[3], [exp (- (25 / 2)) * 3 :: real]] 2 1"
    using generator_shapes [where M = 1 and N = 2 and lib = toy_random and rs = "Some 0"
        and w = toy_world and W = "[[3], [exp (- (25 / 2)) * 3]]"] u by simp
  moreover have "has_shape [[1, 0], [0, 1 :: real]] 2 2"
    using generator_shapes [where M = 1 and N = 2 and lib = toy_random and rs = "Some 0"
        and w = toy_world and W = "[[1, 0], [0, 1]]"] i by simp
  ultimately show ?thesis using c h u v n i by simp
qed

text \<open>
  The claim as stated, shape \<open>(width, n_features)\<close> for every generator of both modules,
  fails for the white-noise generator of the first module at width 1 and 2 features: the
  result has 2 rows of 1 entry.
\<close>

theorem legacy_shape_counterexample:
  "fst (random_feature_matrix toy_random 1 2 (WStr ''white noise'') (Some 0) toy_world)
     = Inr [[- 2], [- 1]]
   \<and> \<not> has_shape [[- 2], [- 1 :: real]] 1 2"
  using toy_white_noise [of toy_world] by (simp add: has_shape_def)

section \<open>The feature map at fit time and afterwards\<close>

text \<open>
  Claim C2, as the code has it. In the second module \<^verbatim>\<open>transform\<close> returns
  \<open>nonlinearity(X \<cdot> W\<^sup>T + b)\<close>, the feature map of the specification, on the stored \<^verbatim>\<open>W_\<close> and
  \<^verbatim>\<open>b_\<close>, for every input with the feature count of \<^verbatim>\<open>W_\<close>; \<^verbatim>\<open>_fit_transform\<close> stores \<^verbatim>\<open>W_\<close>,
  the bias as \<^verbatim>\<open>b_\<close> and, as \<^verbatim>\<open>H_\<close>, the value that \<^verbatim>\<open>transform\<close> returns on the same input,
  with the nonlinearity unchanged; \<^verbatim>\<open>fit\<close> fits the classifier on that \<^verbatim>\<open>H_\<close>, and \<^verbatim>\<open>score\<close>
  scores the result of \<^verbatim>\<open>transform\<close>. The first module has no bias and stores the weights
  with shape \<open>(n_features, width)\<close>: its \<^verbatim>\<open>transform\<close> computes \<open>nonlinearity(X \<cdot> W_)\<close>, which
  is the formula for \<open>W = W_\<^sup>T\<close> and \<open>b = 0\<close>; \<^verbatim>\<open>predict\<close> and \<^verbatim>\<open>score\<close> hand the classifier
  the result of \<^verbatim>\<open>transform\<close>, and \<^verbatim>\<open>fit\<close> fits the classifier on it.
\<close>

theorem feature_map_formula:
  "(W_attr self = Some W \<and> b_attr self = Some b \<and> feature_input_ok W X \<and> bias_fits b W
      \<longrightarrow> transform self X = Inr (spec_feature_map (nonlinearity self) W b X))
   \<and> (fit_transform self X w = (Inr (), self', w')
      \<longrightarrow> (\<exists>W' H. W_attr self' = Some W' \<and> b_attr self' = Some (bias self)
             \<and> H_attr self' = Some H \<and> nonlinearity self' = nonlinearity self
             \<and> transform self' X = Inr H
             \<and> (feature_input_ok W' X \<and> bias_fits (bias self) W'
                \<longrightarrow> H = spec_feature_map (nonlinearity self) W' (bias self) X)))
   \<and> (fit ops self X y w = (Inr (), self', w')
      \<longrightarrow> (\<exists>H. H_attr self' = Some H \<and> transform self' X = Inr H
             \<and> clf_fit ops (clf self) H y = Inr (clf self')))
   \<and> (transform self X = Inr H \<and> coef_attr self = Some cf \<and> intercept_attr self = Some ic
      \<longrightarrow> score ops self X y = clf_score ops (clf self) H y)
   \<and> (legacy_W_attr lself = Some Wt \<and> ncols X = length Wt
      \<longrightarrow> legacy_transform lself X
          = Inr (spec_feature_map (legacy_nonlinearity lself) (transpose_mat Wt) (BScalar 0) X))
   \<and> (legacy_transform lself X = Inr Hl \<and> legacy_clf lself = ClfInstance c
      \<longrightarrow> legacy_predict ops lself X = clf_predict ops c Hl
          \<and> legacy_score ops lself X y = clf_score ops c Hl y)
   \<and> (legacy_fit lib ops lself X y lw = (Inr (), lself', lw')
      \<longrightarrow> (\<exists>Wt' H' c0 c'. legacy_W_attr lself' = Some Wt' \<and> legacy_transform lself' X = Inr H'
             \<and> legacy_nonlinearity lself' = legacy_nonlinearity lself
             \<and> legacy_clf lself' = ClfInstance c' \<and> clf_fit ops c0 H' y = Inr c'))"
proof (intro conjI impI)
  assume "W_attr self = Some W \<and> b_attr self = Some b \<and> feature_input_ok W X \<and> bias_fits b W"
  then show "transform self X = Inr (spec_feature_map (nonlinearity self) W b X)"
    by (simp add: transform_formula computed_feature_map_spec)
next
  assume "fit_transform self X w = (Inr (), self', w')"
  then obtain W' H where a: "W_attr self' = Some W'" "b_attr self' = Some (bias self)"
      "H_attr self' = Some H" "nonlinearity self' = nonlinearity self"
      "computed_feature_map (nonlinearity self) W' (bias self) X = Inr H"
    using fit_transform_success by blast
  have t: "transform self' X = Inr H"
    using a by (simp add: transform_formula)
  have "H = spec_feature_map (nonlinearity self) W' (bias self) X"
    if "feature_input_ok W' X \<and> bias_fits (bias self) W'"
    using that a(5) by (simp add: computed_feature_map_spec)
  then show "\<exists>W' H. W_attr self' = Some W' \<and> b_attr self' = Some (bias self)
             \<and> H_attr self' = Some H \<and> nonlinearity self' = nonlinearity self
             \<and> transform self' X = Inr H
             \<and> (feature_input_ok W' X \<and> bias_fits (bias self) W'
                \<longrightarrow> H = spec_feature_map (nonlinearity self) W' (bias self) X)"
    using a(1-4) t by blast
next
  assume f: "fit ops self X y w = (Inr (), self', w')"
  then obtain W' H where a: "W_attr self' = Some W'" "b_attr self' = Some (bias self)"
      "H_attr self' = Some H" "nonlinearity self' = nonlinearity self"
      "computed_feature_map (nonlinearity self) W' (bias self) X = Inr H"
    using fit_success by blast
  have t: "transform self' X = Inr H"
    using a by (simp add: transform_formula)
  have "clf_fit ops (clf self) H y = Inr (clf self')"
    using fit_hands_H [OF f] a(3) by auto
  then show "\<exists>H. H_attr self' = Some H \<and> transform self' X = Inr H
             \<and> clf_fit ops (clf self) H y = Inr (clf self')"
    using a(3) t by blast
next
  assume "transform self X = Inr H \<and> coef_attr self = Some cf \<and> intercept_attr self = Some ic"
  then show "score ops self X y = clf_score ops (clf self) H y"
    by (simp add: score_transform)
next
  assume "legacy_W_attr lself = Some Wt \<and> ncols X = length Wt"
  then show "legacy_transform lself X
      = Inr (spec_feature_map (legacy_nonlinearity lself) (transpose_mat Wt) (BScalar 0) X)"
    by (simp add: legacy_transform_spec)
next
  assume "legacy_transform lself X = Inr Hl \<and> legacy_clf lself = ClfInstance c"
  then show "legacy_predict ops lself X = clf_predict ops c Hl"
    by (simp add: legacy_predict_transform)
next
  assume "legacy_transform lself X = Inr Hl \<and> legacy_clf lself = ClfInstance c"
  then show "legacy_score ops lself X y = clf_score ops c Hl y"
    by (simp add: legacy_score_transform)
next
  assume "legacy_fit lib ops lself X y lw = (Inr (), lself', lw')"
  then show "\<exists>Wt' H' c0 c'. legacy_W_attr lself' = Some Wt' \<and> legacy_transform lself' X = Inr H'
             \<and> legacy_nonlinearity lself' = legacy_nonlinearity lself
             \<and> legacy_clf lself' = ClfInstance c' \<and> clf_fit ops c0 H' y = Inr c'"
    by (rule legacy_fit_transform)
qed

theorem feature_map_formula_witness:
  "fit toy_svc toy_biased_adapter [[1, - 2], [2, 3]] [1, 0] toy_world
     = (Inr (), toy_biased_adapter\<lparr>W_attr := Some [[0, - 2]], b_attr := Some (BScalar 3),
                                    H_attr := Some [[7], [0]],
                                    clf := Some ([[7], [0]], [1, 0]),
                                    coef_attr := Some [[0]], intercept_attr := Some [0]\<rparr>,
        toy_world\<lparr>rng := 5\<rparr>)
   \<and> transform (toy_biased_adapter\<lparr>W_attr := Some [[0, - 2]], b_attr := Some (BScalar 3),
                                    H_attr := Some [[7], [0]],
                                    clf := Some ([[7], [0]], [1, 0]),
                                    coef_attr := Some [[0]], intercept_attr := Some [0]\<rparr>)
        [[1, - 2], [2, 3]]
     = Inr [[7], [0]]
   \<and> score toy_svc (toy_biased_adapter\<lparr>W_attr := Some [[0, - 2]], b_attr := Some (BScalar 3),
                                        H_attr := Some [[7], [0]],
                                        clf := Some ([[7], [0]], [1, 0]),
                                        coef_attr := Some [[0]], intercept_attr := Some [0]\<rparr>)
        [[1, - 2], [2, 3]] [1, 1]
     = Inr (1 / 2)
   \<and> transform (toy_adapter\<lparr>W_attr := Some [[0, - 2], [1, 1]], b_attr := Some (BVec [3, - 5])\<rparr>)
        [[1, - 2]]
     = Inr [[7, 0]]
   \<and> legacy_fit toy_random toy_svc toy_legacy_adapter [[1, 2], [3, 4]] [0, 1] toy_world
     = (Inr (), toy_legacy_adapter\<lparr>legacy_clf := ClfInstance (Some ([[2, 0], [4, 0]], [0, 1])),
                                    legacy_seed := Some 7,
                                    legacy_W_attr := Some [[0, 2], [1, - 2]],
                                    legacy_fitted := Some True\<rparr>,
        toy_world\<lparr>rng := 11\<rparr>)
   \<and> legacy_transform
        (toy_legacy_adapter\<lparr>legacy_clf := ClfInstance (Some ([[2, 0], [4, 0]], [0, 1])),
                            legacy_seed := Some 7, legacy_W_attr := Some [[0, 2], [1, - 2]],
                            legacy_fitted := Some True\<rparr>) [[1, 2], [3, 4]]
     = Inr [[2, 0], [4, 0]]
   \<and> legacy_predict toy_svc
        (toy_legacy_adapter\<lparr>legacy_clf := ClfInstance (Some ([[2, 0], [4, 0]], [0, 1])),
                            legacy_seed := Some 7, legacy_W_attr := Some [[0, 2], [1, - 2]],
                            legacy_fitted := Some True\<rparr>) [[1, 2], [3, 4]]
     = Inr [1, 1]
   \<and> legacy_score toy_svc
        (toy_legacy_adapter\<lparr>legacy_clf := ClfInstance (Some ([[2, 0], [4, 0]], [0, 1])),
                            legacy_seed := Some 7, legacy_W_attr := Some [[0, 2], [1, - 2]],
                            legacy_fitted := Some True\<rparr>) [[1, 2], [3, 4]] [0, 1]
     = Inr (1 / 2)"
proof -
  let ?X = "[[1, - 2], [2, 3 :: real]]"
  let ?S = "toy_biased_adapter\<lparr>W_attr := Some [[0, - 2]], b_attr := Some (BScalar 3),
                                H_attr := Some [[7], [0]], clf := Some ([[7], [0]], [1, 0]),
                                coef_attr := Some [[0]], intercept_attr := Some [0]\<rparr>"
  let ?V = "toy_adapter\<lparr>W_attr := Some [[0, - 2], [1, 1]], b_attr := Some (BVec [3, - 5])\<rparr>"
  let ?X2 = "[[1, 2], [3, 4 :: real]]"
  let ?L = "toy_legacy_adapter\<lparr>legacy_clf := ClfInstance (Some ([[2, 0], [4, 0]], [0, 1])),
                                legacy_seed := Some 7,
                                legacy_W_attr := Some [[0, 2], [1, - 2]],
                                legacy_fitted := Some True\<rparr>"
  have nl: "nonlinearity ?S = relu 0" "nonlinearity ?V = relu 0" "legacy_nonlinearity ?L = relu 0"
    "nonlinearity toy_biased_adapter = relu 0" "bias toy_biased_adapter = BScalar 3"
    by (simp_all add: toy_adapter_def toy_biased_adapter_def RFClassifier_init_def
        toy_legacy_adapter_def legacy_init_def)
  have f: "fit toy_svc toy_biased_adapter ?X [1, 0] toy_world = (Inr (), ?S, toy_world\<lparr>rng := 5\<rparr>)"
    by (rule toy_biased_fit)
  have ok: "feature_input_ok [[0, - 2]] ?X" "bias_fits (BScalar 3) [[0, - 2]]"
    by (simp_all add: feature_input_ok_def bias_fits_def ncols_def)
  have "transform ?S ?X = Inr (spec_feature_map (nonlinearity ?S) [[0, - 2]] (BScalar 3) ?X)"
    using feature_map_formula [where self = ?S and W = "[[0, - 2]]" and b = "BScalar 3"
        and X = ?X, THEN conjunct1] ok
    by simp
  then have t: "transform ?S ?X = Inr [[7], [0]]"
    by (simp only: nl toy_biased_features)
  have "\<exists>H. H_attr ?S = Some H \<and> transform ?S ?X = Inr H
        \<and> clf_fit toy_svc (clf toy_biased_adapter) H [1, 0] = Inr (clf ?S)"
    using feature_map_formula [where ops = toy_svc and self = toy_biased_adapter and X = ?X
        and y = "[1, 0]" and w = toy_world and self' = ?S and w' = "toy_world\<lparr>rng := 5\<rparr>",
        THEN conjunct2, THEN conjunct2, THEN conjunct1] f
    by blast
  have sc: "score toy_svc ?S ?X [1, 1] = clf_score toy_svc (clf ?S) [[7], [0]] [1, 1]"
    using feature_map_formula [where ops = toy_svc and self = ?S and X = ?X and H = "[[7], [0]]"
        and cf = "[[0]]" and ic = "[0]" and y = "[1, 1]",
        THEN conjunct2, THEN conjunct2, THEN conjunct2, THEN conjunct1] t
    by simp
  have s: "score toy_svc ?S ?X [1, 1] = Inr (1 / 2)"
    unfolding sc by (simp add: toy_svc_def)
  have okv: "feature_input_ok [[0, - 2], [1, 1]] [[1, - 2]]" "bias_fits (BVec [3, - 5]) [[0, - 2], [1, 1]]"
    by (simp_all add: feature_input_ok_def bias_fits_def ncols_def)
  have "transform ?V [[1, - 2]]
      = Inr (spec_feature_map (nonlinearity ?V) [[0, - 2], [1, 1]] (BVec [3, - 5]) [[1, - 2]])"
    using feature_map_formula [where self = ?V and W = "[[0, - 2], [1, 1]]" and b = "BVec [3, - 5]"
        and X = "[[1, - 2]]", THEN conjunct1] okv
    by simp
  then have v: "transform ?V [[1, - 2]] = Inr [[7, 0]]"
    by (simp only: nl toy_vector_bias_features)
  have lf: "legacy_fit toy_random toy_svc toy_legacy_adapter ?X2 [0, 1] toy_world
      = (Inr (), ?L, toy_world\<lparr>rng := 11\<rparr>)"
    by (rule toy_legacy_fit_two_classes)
  have n2: "ncols ?X2 = length [[0, 2], [1, - 2 :: real]]" by (simp add: ncols_def)
  have "legacy_transform ?L ?X2
      = Inr (spec_feature_map (legacy_nonlinearity ?L) (transpose_mat [[0, 2], [1, - 2]])
               (BScalar 0) ?X2)"
    using feature_map_formula [where lself = ?L and Wt = "[[0, 2], [1, - 2]]" and X = ?X2,
        THEN conjunct2, THEN conjunct2, THEN conjunct2, THEN conjunct2, THEN conjunct1] n2
    by simp
  then have lt: "legacy_transform ?L ?X2 = Inr [[2, 0], [4, 0]]"
    by (simp only: nl toy_legacy_features)
  have lps: "legacy_predict toy_svc ?L ?X2
        = clf_predict toy_svc (Some ([[2, 0], [4, 0]], [0, 1])) [[2, 0], [4, 0]]
      \<and> legacy_score toy_svc ?L ?X2 [0, 1]
        = clf_score toy_svc (Some ([[2, 0], [4, 0]], [0, 1])) [[2, 0], [4, 0]] [0, 1]"
    using feature_map_formula [where ops = toy_svc and lself = ?L and X = ?X2
        and Hl = "[[2, 0], [4, 0]]" and c = "Some ([[2, 0], [4, 0]], [0, 1])" and y = "[0, 1]",
        THEN conjunct2, THEN conjunct2, THEN conjunct2, THEN conjunct2, THEN conjunct2,
        THEN conjunct1] lt
    by simp
  have lp: "legacy_predict toy_svc ?L ?X2 = Inr [1, 1]"
    and ls: "legacy_score toy_svc ?L ?X2 [0, 1] = Inr (1 / 2)"
    using lps by (simp_all add: toy_svc_def)
  show ?thesis
    using f t s v lf lt lp ls by simp
qed

text \<open>
  The claim as stated, \<open>nonlinearity(X \<cdot> W\<^sup>T + b)\<close> on the stored weights for the adapters of
  both modules, fails in the first module: after a fit on two samples of two features with
  \<^verbatim>\<open>width=2\<close> the stored \<^verbatim>\<open>W_\<close> is \<open>[[0, 2], [1, -2]]\<close>, \<^verbatim>\<open>transform\<close> returns
  \<open>[[2, 0], [4, 0]]\<close> and \<open>relu(X \<cdot> W_\<^sup>T)\<close> is \<open>[[4, 0], [8, 0]]\<close>.
\<close>

theorem legacy_stored_weights_counterexample:
  "legacy_fit toy_random toy_svc toy_legacy_adapter [[1, 2], [3, 4]] [0, 1] toy_world
     = (Inr (), toy_legacy_adapter\<lparr>legacy_clf := ClfInstance (Some ([[2, 0], [4, 0]], [0, 1])),
                                    legacy_seed := Some 7,
                                    legacy_W_attr := Some [[0, 2], [1, - 2]],
                                    legacy_fitted := Some True\<rparr>,
        toy_world\<lparr>rng := 11\<rparr>)
   \<and> legacy_transform
        (toy_legacy_adapter\<lparr>legacy_clf := ClfInstance (Some ([[2, 0], [4, 0]], [0, 1])),
                            legacy_seed := Some 7, legacy_W_attr := Some [[0, 2], [1, - 2]],
                            legacy_fitted := Some True\<rparr>) [[1, 2], [3, 4]]
     = Inr [[2, 0], [4, 0]]
   \<and> spec_feature_map (relu 0) [[0, 2], [1, - 2]] (BScalar 0) [[1, 2], [3, 4]] = [[4, 0], [8, 0]]
   \<and> legacy_transform
        (toy_legacy_adapter\<lparr>legacy_clf := ClfInstance (Some ([[2, 0], [4, 0]], [0, 1])),
                            legacy_seed := Some 7, legacy_W_attr := Some [[0, 2], [1, - 2]],
                            legacy_fitted := Some True\<rparr>) [[1, 2], [3, 4]]
     \<noteq> Inr (spec_feature_map (relu 0) [[0, 2], [1, - 2]] (BScalar 0) [[1, 2], [3, 4]])"
  by (simp add: toy_legacy_fit_two_classes toy_legacy_transform_two toy_stored_features)

section \<open>Calls before fitting\<close>

text \<open>
  Claim C3, as the code has it. On a freshly constructed adapter every call fails. In the
  second module \<^verbatim>\<open>transform\<close> and \<^verbatim>\<open>score\<close> fail with \<^verbatim>\<open>NotFittedError\<close>, raised by
  \<^verbatim>\<open>check_is_fitted\<close>; the class has no \<^verbatim>\<open>predict\<close>, so that call is an \<^verbatim>\<open>AttributeError\<close>.
  The first module has no guard: \<^verbatim>\<open>transform\<close>, \<^verbatim>\<open>predict\<close> and \<^verbatim>\<open>score\<close> fail with the
  \<^verbatim>\<open>AttributeError\<close> of reading \<^verbatim>\<open>self.W_\<close>, which was never assigned.
\<close>

theorem unfitted_calls_fail:
  "transform (RFClassifier_init wd wfun bs nl c kw rs) X = Inl NotFittedError
   \<and> score ops (RFClassifier_init wd wfun bs nl c kw rs) X y = Inl NotFittedError
   \<and> predict (RFClassifier_init wd wfun bs nl c kw rs) X = Inl AttributeError
   \<and> legacy_transform (legacy_init wd ws nl lc lwfun ca sd) X = Inl AttributeError
   \<and> legacy_predict ops (legacy_init wd ws nl lc lwfun ca sd) X = Inl AttributeError
   \<and> legacy_score ops (legacy_init wd ws nl lc lwfun ca sd) X y = Inl AttributeError"
  by (simp add: transform_def score_def predict_def legacy_transform_def legacy_predict_def
      legacy_score_def RFClassifier_init_def legacy_init_def)

text \<open>
  The claim as stated, a not-fitted error from every one of the calls, fails for
  \<^verbatim>\<open>transform\<close> on \<^verbatim>\<open>RFClassifier()\<close> of the first module, which raises \<^verbatim>\<open>AttributeError\<close>.
\<close>

theorem unfitted_legacy_counterexample:
  "legacy_transform
     (legacy_init 500 (WStr ''white noise'') (relu 0) ClfNone None [] None
        :: (nat, (mat \<times> int list) option) legacy_RFClassifier) [[1, 2]]
     = Inl AttributeError
   \<and> AttributeError \<noteq> NotFittedError"
  by (simp add: legacy_transform_def legacy_init_def)

section \<open>Sample counts that disagree\<close>

text \<open>
  Claim C4, as the code has it. When \<^verbatim>\<open>X\<close> and \<^verbatim>\<open>y\<close> differ in their number of samples,
  \<^verbatim>\<open>fit\<close> of the first module raises \<^verbatim>\<open>ValueError('dimension mismatch')\<close> before anything
  else: the adapter and the process state are as before. \<^verbatim>\<open>fit\<close> of the second module has
  no such check: whenever the weight function returns a matrix \<open>W\<close>, the adapter holds \<open>W\<close> as
  \<^verbatim>\<open>W_\<close> and the bias as \<^verbatim>\<open>b_\<close> after the call and the process state is the one the weight
  function left, whatever \<^verbatim>\<open>y\<close> is; only the injected classifier can reject the labels.
\<close>

theorem dimension_mismatch:
  assumes "length X \<noteq> length y"
  shows "legacy_fit lib ops lself X y lw = (Inl ValueError, lself, lw)
    \<and> (weight_fun self (width self) (ncols X) (case kwargs self of None \<Rightarrow> [] | Some kw \<Rightarrow> kw)
             (random_state self) w = (Inr W, w1)
        \<longrightarrow> W_attr (fst (snd (fit ops self X y w))) = Some W
          \<and> b_attr (fst (snd (fit ops self X y w))) = Some (bias self)
          \<and> snd (snd (fit ops self X y w)) = w1)"
  using assms legacy_fit_mismatch [of X y lib ops lself lw]
    fit_transform_sets_W [of self X w W w1] fit_keeps_W [of ops self X y w]
  by simp

theorem dimension_mismatch_witness:
  "length [[1, - 2 :: real]] \<noteq> length ([] :: int list)
   \<and> legacy_fit toy_random toy_classifier toy_legacy_adapter [[1, - 2]] [] toy_world
     = (Inl ValueError, toy_legacy_adapter, toy_world)
   \<and> W_attr (fst (snd (fit toy_classifier toy_adapter [[1, - 2]] [] toy_world)))
     = Some [[0, - 2]]
   \<and> snd (snd (fit toy_classifier toy_adapter [[1, - 2]] [] toy_world)) = toy_world\<lparr>rng := 5\<rparr>"
proof -
  have n: "ncols [[1, - 2 :: real]] = 2" by (simp add: ncols_def)
  have g: "weight_fun toy_adapter (width toy_adapter) (ncols [[1, - 2 :: real]])
      (case kwargs toy_adapter of None \<Rightarrow> [] | Some kw \<Rightarrow> kw) (random_state toy_adapter) toy_world
      = (Inr [[0, - 2]], toy_world\<lparr>rng := 5\<rparr>)"
    by (simp add: toy_adapter_def RFClassifier_init_def classical_weight_fun_def n
        toy_classical_value)
  have ne: "length [[1, - 2 :: real]] \<noteq> length ([] :: int list)" by simp
  show ?thesis
    using dimension_mismatch [OF ne, where lib = toy_random and ops = toy_classifier
        and lself = toy_legacy_adapter and lw = toy_world and self = toy_adapter
        and w = toy_world and W = "[[0, - 2]]" and ?w1.0 = "toy_world\<lparr>rng := 5\<rparr>"] g
    by simp
qed

text \<open>
  The claim as stated, no weight matrix and an unchanged adapter for every adapter, fails
  for the second module: fitted on one sample and no label, the adapter holds a weight
  matrix afterwards and the global generator has moved on.
\<close>

theorem dimension_mismatch_counterexample:
  "length [[1, - 2 :: real]] \<noteq> length ([] :: int list)
   \<and> W_attr toy_adapter = None
   \<and> fit toy_classifier toy_adapter [[1, - 2]] [] toy_world
     = (Inl ValueError,
        toy_adapter\<lparr>W_attr := Some [[0, - 2]], b_attr := Some (BScalar 0), H_attr := Some [[4]]\<rparr>,
        toy_world\<lparr>rng := 5\<rparr>)
   \<and> rng toy_world = 7"
proof -
  have "W_attr toy_adapter = None" by (simp add: toy_adapter_def RFClassifier_init_def)
  moreover have "rng toy_world = 7" by (simp add: toy_world_def)
  ultimately show ?thesis using toy_fit_mismatch [of toy_world] by simp
qed

section \<open>Fitting, then transforming the training data\<close>

text \<open>
  Claim C6. After a successful \<^verbatim>\<open>fit(X, y)\<close>, \<^verbatim>\<open>transform(X)\<close> returns the representation
  computed during fitting: in the second module the stored \<^verbatim>\<open>H_\<close>; in the first module,
  which does not store it, the matrix \<open>H\<close> on which the classifier, built from the \<^verbatim>\<open>clf\<close>
  argument, was fitted.
\<close>

theorem fit_then_transform:
  "(fit ops self X y w = (Inr (), self', w')
      \<longrightarrow> (\<exists>H. H_attr self' = Some H \<and> transform self' X = Inr H))
   \<and> (legacy_fit lib ops lself X y lw = (Inr (), lself', lw')
      \<longrightarrow> (\<exists>H c c'. legacy_transform lself' X = Inr H
             \<and> legacy_clf lself' = ClfInstance c' \<and> clf_fit ops c H y = Inr c'
             \<and> (case legacy_clf lself of
                   ClfNone \<Rightarrow> \<exists>sd. c = LinearSVC ops sd
                 | ClfClass mk \<Rightarrow> mk (legacy_clf_args lself) = Inr c
                 | ClfInstance _ \<Rightarrow> False)))"
proof (intro conjI impI)
  assume "fit ops self X y w = (Inr (), self', w')"
  then obtain W H where "W_attr self' = Some W" "b_attr self' = Some (bias self)"
      "H_attr self' = Some H" "nonlinearity self' = nonlinearity self"
      "computed_feature_map (nonlinearity self) W (bias self) X = Inr H"
    using fit_success by blast
  then show "\<exists>H. H_attr self' = Some H \<and> transform self' X = Inr H"
    by (simp add: transform_formula)
next
  assume "legacy_fit lib ops lself X y lw = (Inr (), lself', lw')"
  then obtain W P c c' where f: "legacy_W_attr lself' = Some W" "matmul X W = Inr P"
      "legacy_clf lself' = ClfInstance c'"
      "legacy_nonlinearity lself' = legacy_nonlinearity lself"
      "clf_fit ops c (legacy_nonlinearity lself P) y = Inr c'"
      "case legacy_clf lself of
            ClfNone \<Rightarrow> \<exists>sd. c = LinearSVC ops sd
          | ClfClass mk \<Rightarrow> mk (legacy_clf_args lself) = Inr c
          | ClfInstance _ \<Rightarrow> False"
    using legacy_fit_success2 [of lib ops lself X y lw lself' lw'] by blast
  have "legacy_transform lself' X = Inr (legacy_nonlinearity lself P)"
    using f(1,2,4) by (simp add: legacy_transform_def)
  then show "\<exists>H c c'. legacy_transform lself' X = Inr H
             \<and> legacy_clf lself' = ClfInstance c' \<and> clf_fit ops c H y = Inr c'
             \<and> (case legacy_clf lself of
                   ClfNone \<Rightarrow> \<exists>sd. c = LinearSVC ops sd
                 | ClfClass mk \<Rightarrow> mk (legacy_clf_args lself) = Inr c
                 | ClfInstance _ \<Rightarrow> False)"
    using f(3,5,6) by blast
qed

theorem fit_then_transform_witness:
  "fit toy_classifier toy_adapter [[1, - 2]] [1] toy_world
     = (Inr (), toy_adapter\<lparr>W_attr := Some [[0, - 2]], b_attr := Some (BScalar 0),
                             H_attr := Some [[4]], clf := Some ([[4]], [1]),
                             coef_attr := Some [[0]], intercept_attr := Some [0]\<rparr>,
        toy_world\<lparr>rng := 5\<rparr>)
   \<and> transform (toy_adapter\<lparr>W_attr := Some [[0, - 2]], b_attr := Some (BScalar 0),
                             H_attr := Some [[4]], clf := Some ([[4]], [1]),
                             coef_attr := Some [[0]], intercept_attr := Some [0]\<rparr>) [[1, - 2]]
     = Inr [[4]]
   \<and> legacy_fit toy_random toy_classifier toy_legacy_adapter [[1, 2]] [1] toy_world
     = (Inr (), toy_legacy_adapter\<lparr>legacy_clf := ClfInstance (Some ([[2, 0]], [1])),
                                    legacy_seed := Some 7,
                                    legacy_W_attr := Some [[0, 2], [1, - 2]],
                                    legacy_fitted := Some True\<rparr>,
        toy_world\<lparr>rng := 11\<rparr>)
   \<and> legacy_transform
        (toy_legacy_adapter\<lparr>legacy_clf := ClfInstance (Some ([[2, 0]], [1])),
                            legacy_seed := Some 7, legacy_W_attr := Some [[0, 2], [1, - 2]],
                            legacy_fitted := Some True\<rparr>) [[1, 2]]
     = Inr [[2, 0]]"
proof -
  let ?S = "toy_adapter\<lparr>W_attr := Some [[0, - 2]], b_attr := Some (BScalar 0),
                         H_attr := Some [[4]], clf := Some ([[4]], [1]),
                         coef_attr := Some [[0]], intercept_attr := Some [0]\<rparr>"
  let ?L = "toy_legacy_adapter\<lparr>legacy_clf := ClfInstance (Some ([[2, 0]], [1])),
                                legacy_seed := Some 7,
                                legacy_W_attr := Some [[0, 2], [1, - 2]],
                                legacy_fitted := Some True\<rparr>"
  have f: "fit toy_classifier toy_adapter [[1, - 2]] [1] toy_world
      = (Inr (), ?S, toy_world\<lparr>rng := 5\<rparr>)"
    by (rule toy_fit)
  have "\<exists>H. H_attr ?S = Some H \<and> transform ?S [[1, - 2]] = Inr H"
    using fit_then_transform [where ops = toy_classifier and self = toy_adapter
        and X = "[[1, - 2]]" and y = "[1]" and w = toy_world and self' = ?S
        and w' = "toy_world\<lparr>rng := 5\<rparr>", THEN conjunct1] f
    by blast
  then have t: "transform ?S [[1, - 2]] = Inr [[4]]" by auto
  have lf: "legacy_fit toy_random toy_classifier toy_legacy_adapter [[1, 2]] [1] toy_world
      = (Inr (), ?L, toy_world\<lparr>rng := 11\<rparr>)"
    by (rule toy_legacy_fit)
  obtain H c c' where "legacy_transform ?L [[1, 2]] = Inr H" "legacy_clf ?L = ClfInstance c'"
      "clf_fit toy_classifier c H [1] = Inr c'"
    using fit_then_transform [where ops = toy_classifier and lib = toy_random
        and lself = toy_legacy_adapter and X = "[[1, 2]]" and y = "[1]" and lw = toy_world
        and lself' = ?L and lw' = "toy_world\<lparr>rng := 11\<rparr>", THEN conjunct2] lf
    by blast
  then have "legacy_transform ?L [[1, 2]] = Inr [[2, 0]]"
    by (auto simp: toy_classifier_def split: if_splits)
  then show ?thesis using f t lf by simp
qed

section \<open>Fitting a second time\<close>

text \<open>
  Claim C7 fails in the first module. \<^verbatim>\<open>fit\<close> replaces \<^verbatim>\<open>self.clf\<close> by the classifier
  instance it builds, and the next call of \<^verbatim>\<open>fit\<close> evaluates \<^verbatim>\<open>self.clf(**self.clf_args)\<close> on
  that instance: after any successful \<^verbatim>\<open>fit\<close>, a further \<^verbatim>\<open>fit\<close> with matching sample counts
  raises \<^verbatim>\<open>TypeError\<close> and leaves the adapter, its \<^verbatim>\<open>W_\<close> included, and the process state
  as they were. (In the second module a second \<^verbatim>\<open>fit\<close> does not read the attributes of
  the first: see \<open>fit_refit\<close>.) The instance below fits on labels of two classes, with a
  classifier that, like \<^verbatim>\<open>LinearSVC\<close>, refuses labels of one class.
\<close>

theorem legacy_refit_raises:
  assumes "legacy_fit lib ops self X y w = (Inr (), self', w')" and "length X2 = length y2"
  shows "legacy_fit lib ops self' X2 y2 w2 = (Inl TypeError, self', w2)"
  using assms by (rule legacy_refit)

theorem legacy_refit_raises_witness:
  "legacy_fit toy_random toy_svc toy_legacy_adapter [[1, 2], [3, 4]] [0, 1] toy_world
     = (Inr (), toy_legacy_adapter\<lparr>legacy_clf := ClfInstance (Some ([[2, 0], [4, 0]], [0, 1])),
                                    legacy_seed := Some 7,
                                    legacy_W_attr := Some [[0, 2], [1, - 2]],
                                    legacy_fitted := Some True\<rparr>,
        toy_world\<lparr>rng := 11\<rparr>)
   \<and> legacy_fit toy_random toy_svc
        (toy_legacy_adapter\<lparr>legacy_clf := ClfInstance (Some ([[2, 0], [4, 0]], [0, 1])),
                            legacy_seed := Some 7, legacy_W_attr := Some [[0, 2], [1, - 2]],
                            legacy_fitted := Some True\<rparr>)
        [[1, 2], [3, 4]] [0, 1] (toy_world\<lparr>rng := 11\<rparr>)
     = (Inl TypeError,
        toy_legacy_adapter\<lparr>legacy_clf := ClfInstance (Some ([[2, 0], [4, 0]], [0, 1])),
                           legacy_seed := Some 7, legacy_W_attr := Some [[0, 2], [1, - 2]],
                           legacy_fitted := Some True\<rparr>,
        toy_world\<lparr>rng := 11\<rparr>)
   \<and> fst (legacy_fit toy_random toy_svc toy_legacy_adapter [[1, 2]] [1] toy_world)
     = Inl ValueError"
proof -
  have l: "length [[1, 2], [3, 4 :: real]] = length [0, 1 :: int]" by simp
  show ?thesis
    using legacy_refit_raises [OF toy_legacy_fit_two_classes l, of "toy_world\<lparr>rng := 11\<rparr>"]
      toy_legacy_fit_two_classes toy_legacy_fit_one_class
    by simp
qed

end
